theory Spec2Isabelle
  imports Complex_Main "HOL-Library.Char_ord" "HOL-Library.List_Lexorder" "HOL-Library.Multiset"
begin

section \<open>Python primitives used by the Amber parameter module\<close>

text \<open>
  The module \<^verbatim>\<open>parmed/amber/parameters.py\<close> works on text lines with
  \<^verbatim>\<open>str.split\<close>, \<^verbatim>\<open>str.strip\<close>, \<^verbatim>\<open>float\<close> and a handful of regular
  expressions. Strings are \<^typ>\<open>string\<close> (ASCII text; Python orders strings by code
  point, which is the lexicographic order on \<^typ>\<open>char list\<close>). Exceptions are values of
  \<open>py_error\<close>; a function that can raise returns \<open>py_error + 'a\<close>.
\<close>

datatype py_error =
    ParameterError string
  | ValueError
  | IndexError
  | KeyError
  | TypeError
  | AttributeError
  | ZeroDivisionError
  | AssertionError string
  | FileNotFoundError string

text \<open>
  A Python \<^verbatim>\<open>float\<close>: a finite value (taken as a real number: rounding and overflow of
  binary floating point are not modelled), the two infinities and NaN, which
  \<^verbatim>\<open>float()\<close> accepts as text.
\<close>

datatype pyfloat = Fin real | PInf | NInf | NaN

definition is_space :: "char \<Rightarrow> bool" where
  "is_space c \<longleftrightarrow> of_char c \<in> {9, 10, 11, 12, 13, 28, 29, 30, 31, 32 :: nat}"

definition is_digit :: "char \<Rightarrow> bool" where
  "is_digit c \<longleftrightarrow> (48::nat) \<le> of_char c \<and> of_char c \<le> (57::nat)"

definition is_upper :: "char \<Rightarrow> bool" where
  "is_upper c \<longleftrightarrow> (65::nat) \<le> of_char c \<and> of_char c \<le> (90::nat)"

definition is_lower :: "char \<Rightarrow> bool" where
  "is_lower c \<longleftrightarrow> (97::nat) \<le> of_char c \<and> of_char c \<le> (122::nat)"

definition is_alpha :: "char \<Rightarrow> bool" where
  "is_alpha c \<longleftrightarrow> is_upper c \<or> is_lower c"

definition to_upper :: "char \<Rightarrow> char" where
  "to_upper c = (if is_lower c then char_of (of_char c - (32::nat)) else c)"

definition to_lower :: "char \<Rightarrow> char" where
  "to_lower c = (if is_upper c then char_of (of_char c + (32::nat)) else c)"

definition lstrip :: "string \<Rightarrow> string" where
  "lstrip s = dropWhile is_space s"

definition rstrip :: "string \<Rightarrow> string" where
  "rstrip s = rev (dropWhile is_space (rev s))"

definition strip :: "string \<Rightarrow> string" where
  "strip s = rstrip (lstrip s)"

text \<open>\<^verbatim>\<open>s.rstrip('\r\n')\<close>: trailing carriage returns and newlines only.\<close>

definition rstrip_crlf :: "string \<Rightarrow> string" where
  "rstrip_crlf s = rev (dropWhile (\<lambda>c. c = CHR 0x0D \<or> c = CHR 0x0A) (rev s))"

text \<open>
  \<^verbatim>\<open>s.split()\<close>: the maximal runs of non-whitespace characters, in order. The
  accumulator \<open>w\<close> is the word being read, reversed.
\<close>

fun split_acc :: "string \<Rightarrow> string \<Rightarrow> string list" where
  "split_acc w [] = (if w = [] then [] else [rev w])"
| "split_acc w (c # cs) =
     (if is_space c then (if w = [] then split_acc [] cs else rev w # split_acc [] cs)
      else split_acc (c # w) cs)"

definition split_ws :: "string \<Rightarrow> string list" where
  "split_ws s = split_acc [] s"

definition startswith :: "string \<Rightarrow> string \<Rightarrow> bool" where
  "startswith s p \<longleftrightarrow> take (length p) s = p"

text \<open>\<^verbatim>\<open>ws[i]\<close> on a list: IndexError out of range (indices here are never negative).\<close>

definition index :: "'a list \<Rightarrow> nat \<Rightarrow> py_error + 'a" where
  "index xs i = (if i < length xs then Inr (xs ! i) else Inl IndexError)"

subsection \<open>\<^verbatim>\<open>float(s)\<close>\<close>

text \<open>
  The grammar of \<^verbatim>\<open>float()\<close> on a string: optional sign, then \<^verbatim>\<open>inf\<close>,
  \<^verbatim>\<open>infinity\<close> or \<^verbatim>\<open>nan\<close> in any case, or a decimal number with an optional
  exponent; digits may be grouped by single underscores. Surrounding whitespace is
  ignored. Anything else raises ValueError (\<open>None\<close> here).
\<close>

definition digit_val :: "char \<Rightarrow> nat" where
  "digit_val c = of_char c - 48"

text \<open>The value of a digit string, most significant digit first.\<close>

definition nat_of_digits :: "string \<Rightarrow> nat" where
  "nat_of_digits ds = foldl (\<lambda>n c. 10 * n + digit_val c) 0 ds"

text \<open>
  A \<^verbatim>\<open>digitpart\<close>: a digit, then digits each optionally preceded by one underscore.
  Returns the digits read (underscores dropped) and the rest of the input.
\<close>

fun digit_tail :: "string \<Rightarrow> string \<times> string" where
  "digit_tail [] = ([], [])"
| "digit_tail [c] = (if is_digit c then ([c], []) else ([], [c]))"
| "digit_tail (c # d # cs) =
     (if is_digit c then (let (ds, r) = digit_tail (d # cs) in (c # ds, r))
      else if c = CHR ''_'' \<and> is_digit d then (let (ds, r) = digit_tail cs in (d # ds, r))
      else ([], c # d # cs))"

definition digitpart :: "string \<Rightarrow> (string \<times> string) option" where
  "digitpart s =
     (case s of [] \<Rightarrow> None
      | c # cs \<Rightarrow> if is_digit c then Some (digit_tail s) else None)"

text \<open>The exponent part, or 0 when the input ends; \<open>None\<close> when malformed.\<close>

definition exponent :: "string \<Rightarrow> int option" where
  "exponent s =
     (case s of [] \<Rightarrow> Some 0
      | c # cs \<Rightarrow>
          if c = CHR ''e'' \<or> c = CHR ''E'' then
            (let (neg, ds) = (case cs of [] \<Rightarrow> (False, cs)
                              | x # xs \<Rightarrow> if x = CHR ''-'' then (True, xs)
                                          else if x = CHR ''+'' then (False, xs)
                                          else (False, cs))
             in case digitpart ds of
                  None \<Rightarrow> None
                | Some (es, r) \<Rightarrow>
                    if r = [] then Some (if neg then - int (nat_of_digits es)
                                         else int (nat_of_digits es))
                    else None)
          else None)"

text \<open>mantissa digits \<open>m\<close> (integer and fraction digits together), \<open>k\<close> fraction
  digits, decimal exponent \<open>e\<close>: the value \<open>m \<times> 10\<^bsup>e - k\<^esup>\<close>.\<close>

definition decimal_value :: "string \<Rightarrow> nat \<Rightarrow> int \<Rightarrow> real" where
  "decimal_value m k e =
     (let x = e - int k
      in if 0 \<le> x then real (nat_of_digits m) * 10 ^ nat x
         else real (nat_of_digits m) / 10 ^ nat (- x))"

definition abs_number :: "string \<Rightarrow> real option" where
  "abs_number s =
     (case s of
        [] \<Rightarrow> None
      | c # cs \<Rightarrow>
          if c = CHR ''.'' then
            (case digitpart cs of
               None \<Rightarrow> None
             | Some (fs, r) \<Rightarrow>
                 (case exponent r of
                    None \<Rightarrow> None
                  | Some e \<Rightarrow> Some (decimal_value fs (length fs) e)))
          else
            (case digitpart s of
               None \<Rightarrow> None
             | Some (ip, r) \<Rightarrow>
                 (case r of
                    [] \<Rightarrow> Some (decimal_value ip 0 0)
                  | d # r' \<Rightarrow>
                      if d = CHR ''.'' then
                        (case digitpart r' of
                           None \<Rightarrow>
                             (case exponent r' of
                                None \<Rightarrow> None
                              | Some e \<Rightarrow> Some (decimal_value ip 0 e))
                         | Some (fs, r'') \<Rightarrow>
                             (case exponent r'' of
                                None \<Rightarrow> None
                              | Some e \<Rightarrow> Some (decimal_value (ip @ fs) (length fs) e)))
                      else
                        (case exponent r of
                           None \<Rightarrow> None
                         | Some e \<Rightarrow> Some (decimal_value ip 0 e)))))"

definition py_float :: "string \<Rightarrow> pyfloat option" where
  "py_float s0 =
     (let s = strip s0;
          (neg, t) = (case s of [] \<Rightarrow> (False, s)
                      | c # cs \<Rightarrow> if c = CHR ''-'' then (True, cs)
                                  else if c = CHR ''+'' then (False, cs)
                                  else (False, s));
          l = map to_lower t
      in if l = ''inf'' \<or> l = ''infinity'' then Some (if neg then NInf else PInf)
         else if l = ''nan'' then Some NaN
         else (case abs_number t of
                 None \<Rightarrow> None
               | Some v \<Rightarrow> Some (Fin (if neg then - v else v))))"

text \<open>\<^verbatim>\<open>float(s)\<close> as the code calls it: ValueError when the text is no number.\<close>

definition float_of :: "string \<Rightarrow> py_error + pyfloat" where
  "float_of s = (case py_float s of None \<Rightarrow> Inl ValueError | Some v \<Rightarrow> Inr v)"

subsection \<open>Arithmetic on floats\<close>

text \<open>
  The IEEE rules for the special values, as Python applies them; finite values are
  computed in the reals. Division by a zero raises ZeroDivisionError, and
  \<^verbatim>\<open>math.sqrt\<close> of a negative value raises ValueError. Every comparison with NaN is
  false.
\<close>

fun pf_neg :: "pyfloat \<Rightarrow> pyfloat" where
  "pf_neg (Fin x) = Fin (- x)"
| "pf_neg PInf = NInf"
| "pf_neg NInf = PInf"
| "pf_neg NaN = NaN"

fun pf_abs :: "pyfloat \<Rightarrow> pyfloat" where
  "pf_abs (Fin x) = Fin \<bar>x\<bar>"
| "pf_abs PInf = PInf"
| "pf_abs NInf = PInf"
| "pf_abs NaN = NaN"

fun pf_add :: "pyfloat \<Rightarrow> pyfloat \<Rightarrow> pyfloat" where
  "pf_add (Fin x) (Fin y) = Fin (x + y)"
| "pf_add NaN _ = NaN"
| "pf_add _ NaN = NaN"
| "pf_add PInf NInf = NaN"
| "pf_add NInf PInf = NaN"
| "pf_add PInf _ = PInf"
| "pf_add NInf _ = NInf"
| "pf_add _ PInf = PInf"
| "pf_add _ NInf = NInf"

definition pf_sub :: "pyfloat \<Rightarrow> pyfloat \<Rightarrow> pyfloat" where
  "pf_sub a b = pf_add a (pf_neg b)"

text \<open>The sign of a non-NaN value: \<open>-1\<close>, \<open>0\<close> or \<open>1\<close>.\<close>

fun pf_sgn :: "pyfloat \<Rightarrow> int" where
  "pf_sgn (Fin x) = (if x < 0 then - 1 else if x = 0 then 0 else 1)"
| "pf_sgn PInf = 1"
| "pf_sgn NInf = - 1"
| "pf_sgn NaN = 0"

fun pf_mul :: "pyfloat \<Rightarrow> pyfloat \<Rightarrow> pyfloat" where
  "pf_mul (Fin x) (Fin y) = Fin (x * y)"
| "pf_mul NaN _ = NaN"
| "pf_mul _ NaN = NaN"
| "pf_mul a b =
     (if pf_sgn a * pf_sgn b = 0 then NaN
      else if pf_sgn a * pf_sgn b < 0 then NInf else PInf)"

fun pf_div :: "pyfloat \<Rightarrow> pyfloat \<Rightarrow> py_error + pyfloat" where
  "pf_div a (Fin y) =
     (if y = 0 then Inl ZeroDivisionError
      else case a of
             Fin x \<Rightarrow> Inr (Fin (x / y))
           | NaN \<Rightarrow> Inr NaN
           | _ \<Rightarrow> Inr (if pf_sgn a * pf_sgn (Fin y) < 0 then NInf else PInf))"
| "pf_div a NaN = Inr NaN"
| "pf_div (Fin x) _ = Inr (Fin 0)"
| "pf_div _ _ = Inr NaN"

fun pf_sqrt :: "pyfloat \<Rightarrow> py_error + pyfloat" where
  "pf_sqrt (Fin x) = (if x < 0 then Inl ValueError else Inr (Fin (sqrt x)))"
| "pf_sqrt PInf = Inr PInf"
| "pf_sqrt NInf = Inl ValueError"
| "pf_sqrt NaN = Inr NaN"

fun pf_less :: "pyfloat \<Rightarrow> pyfloat \<Rightarrow> bool" where
  "pf_less (Fin x) (Fin y) = (x < y)"
| "pf_less NaN _ = False"
| "pf_less _ NaN = False"
| "pf_less NInf b = (b \<noteq> NInf)"
| "pf_less a PInf = (a \<noteq> PInf)"
| "pf_less _ _ = False"

definition pf_greater :: "pyfloat \<Rightarrow> pyfloat \<Rightarrow> bool" where
  "pf_greater a b = pf_less b a"

text \<open>\<^verbatim>\<open>a >= b\<close> and \<^verbatim>\<open>a != b\<close>.\<close>

definition pf_ge :: "pyfloat \<Rightarrow> pyfloat \<Rightarrow> bool" where
  "pf_ge a b \<longleftrightarrow> a \<noteq> NaN \<and> b \<noteq> NaN \<and> \<not> pf_less a b"

definition pf_ne :: "pyfloat \<Rightarrow> pyfloat \<Rightarrow> bool" where
  "pf_ne a b \<longleftrightarrow> a = NaN \<or> b = NaN \<or> a \<noteq> b"

subsection \<open>Dictionaries and object identity\<close>

text \<open>
  A \<^verbatim>\<open>dict\<close> keeps its keys in insertion order, and the writer iterates in that
  order: it is an association list with distinct keys. Assigning to a key that is
  present keeps the key's place; a new key goes to the end.
\<close>

type_synonym ('k, 'v) dict = "('k \<times> 'v) list"

fun dict_set :: "('k, 'v) dict \<Rightarrow> 'k \<Rightarrow> 'v \<Rightarrow> ('k, 'v) dict" where
  "dict_set [] k v = [(k, v)]"
| "dict_set ((k', v') # d) k v =
     (if k' = k then (k, v) # d else (k', v') # dict_set d k v)"

definition dict_get :: "('k, 'v) dict \<Rightarrow> 'k \<Rightarrow> 'v option" where
  "dict_get d k = map_of d k"

definition dict_has :: "('k, 'v) dict \<Rightarrow> 'k \<Rightarrow> bool" where
  "dict_has d k \<longleftrightarrow> map_of d k \<noteq> None"

text \<open>
  Bond, angle and dihedral records are objects shared between keys: a dictionary
  holds a reference, and the object lives in a store. A reference is the object's
  identity (what \<^verbatim>\<open>id(typ)\<close> returns while the object is alive); creating an
  object takes the next free reference.
\<close>

type_synonym ref = nat
type_synonym 'a store = "'a list"

definition alloc :: "'a store \<Rightarrow> 'a \<Rightarrow> ref \<times> 'a store" where
  "alloc h v = (length h, h @ [v])"

definition deref :: "'a store \<Rightarrow> ref \<Rightarrow> 'a option" where
  "deref h r = (if r < length h then Some (h ! r) else None)"

subsection \<open>Regular expressions\<close>

text \<open>
  The patterns of the module use character classes, sequence, alternation, optional
  parts, greedy and non-greedy repetition, and numbered groups. \<open>rx_run\<close> is the
  backtracking matcher of Python's \<^verbatim>\<open>re\<close>: from a state (the input left, the groups
  captured so far) it returns every way to match, in the order in which the
  backtracking search tries them, so the head of the list is the match that
  \<^verbatim>\<open>re\<close> reports. A repetition whose body matches the empty string stops there (no
  pattern of the module has one).
\<close>

datatype rx =
    Eps
  | Chr "char \<Rightarrow> bool"
  | Seq rx rx
  | Alt rx rx
  | Opt rx
  | Star rx
  | Plus rx
  | PlusLazy rx
  | Group nat rx

type_synonym rx_state = "string \<times> string list"

primrec star_iter :: "(rx_state \<Rightarrow> rx_state list) \<Rightarrow> nat \<Rightarrow> rx_state \<Rightarrow> rx_state list" where
  "star_iter f 0 st = [st]"
| "star_iter f (Suc n) st =
     concat (map (\<lambda>st'. if length (fst st') < length (fst st) then star_iter f n st' else [])
                 (f st)) @ [st]"

primrec lazy_iter :: "(rx_state \<Rightarrow> rx_state list) \<Rightarrow> nat \<Rightarrow> rx_state \<Rightarrow> rx_state list" where
  "lazy_iter f 0 st = [st]"
| "lazy_iter f (Suc n) st =
     st # concat (map (\<lambda>st'. if length (fst st') < length (fst st) then lazy_iter f n st' else [])
                      (f st))"

primrec rx_run :: "rx \<Rightarrow> rx_state \<Rightarrow> rx_state list" where
  "rx_run Eps st = [st]"
| "rx_run (Chr p) st =
     (case fst st of [] \<Rightarrow> [] | c # cs \<Rightarrow> if p c then [(cs, snd st)] else [])"
| "rx_run (Seq a b) st = concat (map (rx_run b) (rx_run a st))"
| "rx_run (Alt a b) st = rx_run a st @ rx_run b st"
| "rx_run (Opt a) st = rx_run a st @ [st]"
| "rx_run (Star a) st = star_iter (rx_run a) (length (fst st)) st"
| "rx_run (Plus a) st =
     concat (map (star_iter (rx_run a) (length (fst st))) (rx_run a st))"
| "rx_run (PlusLazy a) st =
     concat (map (lazy_iter (rx_run a) (length (fst st))) (rx_run a st))"
| "rx_run (Group i a) st =
     map (\<lambda>st'. (fst st', (snd st')[i := take (length (fst st) - length (fst st')) (fst st)]))
         (rx_run a st)"

text \<open>\<^verbatim>\<open>pattern.match(s)\<close> for a pattern with \<open>n\<close> groups: the groups of the first
  match at the start of \<open>s\<close>.\<close>

definition rx_match :: "rx \<Rightarrow> nat \<Rightarrow> string \<Rightarrow> string list option" where
  "rx_match r n s =
     (case rx_run r (s, replicate n []) of [] \<Rightarrow> None | st # _ \<Rightarrow> Some (snd st))"

text \<open>\<^verbatim>\<open>pattern.findall(s)\<close>: the groups of the successive non-overlapping matches,
  scanning from the left.\<close>

primrec findall_iter :: "rx \<Rightarrow> nat \<Rightarrow> nat \<Rightarrow> string \<Rightarrow> string list list" where
  "findall_iter r n 0 s = []"
| "findall_iter r n (Suc k) s =
     (case rx_run r (s, replicate n []) of
        [] \<Rightarrow> (case s of [] \<Rightarrow> [] | _ # t \<Rightarrow> findall_iter r n k t)
      | st # _ \<Rightarrow>
          snd st # (if length (fst st) < length s then findall_iter r n k (fst st)
                    else case s of [] \<Rightarrow> [] | _ # t \<Rightarrow> findall_iter r n k t))"

definition rx_findall :: "rx \<Rightarrow> nat \<Rightarrow> string \<Rightarrow> string list list" where
  "rx_findall r n s = findall_iter r n (Suc (length s)) s"

definition seqs :: "rx list \<Rightarrow> rx" where
  "seqs rs = foldr Seq rs Eps"

definition lit :: "string \<Rightarrow> rx" where
  "lit s = seqs (map (\<lambda>c. Chr (\<lambda>x. x = c)) s)"

text \<open>\<^verbatim>\<open>.\<close> (any character but a newline), \<^verbatim>\<open>\s\<close>, \<^verbatim>\<open>\S\<close> and \<^verbatim>\<open>\d\<close>.\<close>

definition rx_dot :: rx where
  "rx_dot = Chr (\<lambda>c. c \<noteq> CHR 0x0A)"

definition rx_s :: rx where
  "rx_s = Chr is_space"

definition rx_S :: rx where
  "rx_S = Chr (\<lambda>c. \<not> is_space c)"

definition rx_d :: rx where
  "rx_d = Chr is_digit"

text \<open>
  The patterns, as the module compiles them:
  \<^verbatim>\<open>FLOATRE = ([+-]?(?:\d+(?:\.\d*)?|\.\d+))\<close>, here with the number of its group.
\<close>

definition FLOATRE :: "nat \<Rightarrow> rx" where
  "FLOATRE i =
     Group i (Seq (Opt (Chr (\<lambda>c. c = CHR ''+'' \<or> c = CHR ''-'')))
                  (Alt (Seq (Plus rx_d) (Opt (Seq (lit ''.'') (Star rx_d))))
                       (Seq (lit ''.'') (Plus rx_d))))"

text \<open>\<^verbatim>\<open>(..?)\<close>: an atom type field of one or two characters.\<close>

definition atomre :: "nat \<Rightarrow> rx" where
  "atomre i = Group i (Seq rx_dot (Opt rx_dot))"

text \<open>\<^verbatim>\<open>_bondre = (..?)-(..?)\s+FLOATRE\s+FLOATRE\<close>\<close>

definition bondre :: rx where
  "bondre = seqs [atomre 0, lit ''-'', atomre 1, Plus rx_s, FLOATRE 2, Plus rx_s, FLOATRE 3]"

text \<open>\<^verbatim>\<open>_anglere = (..?)-(..?)-(..?)\s+FLOATRE\s+FLOATRE\<close>\<close>

definition anglere :: rx where
  "anglere = seqs [atomre 0, lit ''-'', atomre 1, lit ''-'', atomre 2,
                   Plus rx_s, FLOATRE 3, Plus rx_s, FLOATRE 4]"

text \<open>\<^verbatim>\<open>_dihedre = (..?)-(..?)-(..?)-(..?)\s+FLOATRE\s+FLOATRE\s+FLOATRE\s+FLOATRE\<close>\<close>

definition dihedre :: rx where
  "dihedre = seqs [atomre 0, lit ''-'', atomre 1, lit ''-'', atomre 2, lit ''-'', atomre 3,
                   Plus rx_s, FLOATRE 4, Plus rx_s, FLOATRE 5,
                   Plus rx_s, FLOATRE 6, Plus rx_s, FLOATRE 7]"

text \<open>\<^verbatim>\<open>_dihed2re = \s*FLOATRE\s+FLOATRE\s+FLOATRE\s+FLOATRE\<close>\<close>

definition dihed2re :: rx where
  "dihed2re = seqs [Star rx_s, FLOATRE 0, Plus rx_s, FLOATRE 1,
                    Plus rx_s, FLOATRE 2, Plus rx_s, FLOATRE 3]"

text \<open>\<^verbatim>\<open>_sceere = SCEE=\s*FLOATRE\<close> and \<^verbatim>\<open>_scnbre = SCNB=\s*FLOATRE\<close>\<close>

definition sceere :: rx where
  "sceere = seqs [lit ''SCEE='', Star rx_s, FLOATRE 0]"

definition scnbre :: rx where
  "scnbre = seqs [lit ''SCNB='', Star rx_s, FLOATRE 0]"

text \<open>\<^verbatim>\<open>_impropre = (..?)-(..?)-(..?)-(..?)\s+FLOATRE\s+FLOATRE\s+FLOATRE\<close>\<close>

definition impropre :: rx where
  "impropre = seqs [atomre 0, lit ''-'', atomre 1, lit ''-'', atomre 2, lit ''-'', atomre 3,
                    Plus rx_s, FLOATRE 4, Plus rx_s, FLOATRE 5, Plus rx_s, FLOATRE 6]"

section \<open>The parameter database\<close>

text \<open>
  \<^verbatim>\<open>AtomType(name, number, mass, atomic_number)\<close> with its optional Lennard-Jones
  parameters. The module creates one \<^verbatim>\<open>AtomType\<close> object per name and never stores
  one object under two names, so the dictionary of atom types holds the records
  themselves.
\<close>

record AtomType =
  name :: string
  number :: nat
  mass :: pyfloat
  atomic_number :: nat
  epsilon :: "pyfloat option"
  rmin :: "pyfloat option"

record BondType =
  bond_k :: pyfloat
  req :: pyfloat

record AngleType =
  angle_k :: pyfloat
  theteq :: pyfloat

text \<open>\<^verbatim>\<open>DihedralType(phi_k, per, phase, scee, scnb)\<close>; the two scaling factors are
  \<open>None\<close> when the constructor is called without them (improper terms).\<close>

record DihedralType =
  phi_k :: pyfloat
  per :: pyfloat
  phase :: pyfloat
  scee :: "pyfloat option"
  scnb :: "pyfloat option"

text \<open>A value of \<^verbatim>\<open>dihedral_types\<close> is one \<^verbatim>\<open>DihedralType\<close> or a
  \<^verbatim>\<open>DihedralTypeList\<close>, the terms of one torsion in order.\<close>

datatype dihedral_obj = Single DihedralType | TypeList "DihedralType list"

type_synonym key2 = "string \<times> string"
type_synonym key3 = "string \<times> string \<times> string"
type_synonym key4 = "string \<times> string \<times> string \<times> string"

text \<open>
  The parameter set. The dictionaries of bonds, angles and dihedrals hold references
  into the stores \<open>bond_objs\<close>, \<open>angle_objs\<close> and \<open>dihedral_objs\<close>; \<open>warnings\<close>
  collects the messages passed to \<^verbatim>\<open>warnings.warn\<close>, oldest first.
\<close>

record param_db =
  atom_types :: "(string, AtomType) dict"
  bond_types :: "(key2, ref) dict"
  bond_objs :: "BondType store"
  angle_types :: "(key3, ref) dict"
  angle_objs :: "AngleType store"
  dihedral_types :: "(key4, ref) dict"
  dihedral_objs :: "dihedral_obj store"
  improper_periodic_types :: "(key4, DihedralType) dict"
  nbfix_types :: "(key2, pyfloat \<times> pyfloat) dict"
  titles :: "string list"
  warnings :: "string list"

definition empty_db :: param_db where
  "empty_db =
     \<lparr>atom_types = [], bond_types = [], bond_objs = [], angle_types = [], angle_objs = [],
      dihedral_types = [], dihedral_objs = [], improper_periodic_types = [],
      nbfix_types = [], titles = [], warnings = []\<rparr>"

text \<open>
  The module \<^verbatim>\<open>parmed/periodic_table.py\<close> is not among the sources; its three
  tables are parameters: the standard mass of an element symbol, its atomic number,
  and the symbol of the element whose mass is nearest to a given mass.
\<close>

record periodic_table =
  Mass :: "string \<Rightarrow> real option"
  AtomicNum :: "string \<Rightarrow> nat option"
  element_by_mass :: "pyfloat \<Rightarrow> string"

text \<open>\<^verbatim>\<open>AtomType.set_lj_params(eps, rmin)\<close>: attaches the Lennard-Jones well depth
  and radius.\<close>

definition set_lj_params :: "AtomType \<Rightarrow> pyfloat \<Rightarrow> pyfloat \<Rightarrow> AtomType" where
  "set_lj_params t eps r = t\<lparr>epsilon := Some eps, rmin := Some r\<rparr>"

section \<open>The line handlers\<close>

text \<open>\<^verbatim>\<open>_process_mass_line\<close>\<close>

definition process_mass_line :: "periodic_table \<Rightarrow> param_db \<Rightarrow> string \<Rightarrow> py_error + param_db" where
  "process_mass_line pt db line =
     (let words = split_ws line
      in case index words 1 of
           Inl _ \<Rightarrow> Inl (ParameterError ''Error parsing MASS line. Not enough tokens'')
         | Inr w1 \<Rightarrow>
             (case float_of w1 of
                Inl _ \<Rightarrow> Inl (ParameterError ''Could not convert mass to float'')
              | Inr m \<Rightarrow>
                  (case dict_get (atom_types db) (words ! 0) of
                     Some t \<Rightarrow>
                       Inr (db\<lparr>atom_types := dict_set (atom_types db) (words ! 0) (t\<lparr>mass := m\<rparr>)\<rparr>)
                   | None \<Rightarrow>
                       if words ! 0 = ''EP'' \<or> words ! 0 = ''LP'' then
                         Inr (db\<lparr>atom_types := dict_set (atom_types db) (words ! 0)
                                \<lparr>name = words ! 0, number = length (atom_types db) + 1, mass = m,
                                 atomic_number = 0, epsilon = None, rmin = None\<rparr>\<rparr>)
                       else
                         (case AtomicNum pt (element_by_mass pt m) of
                            None \<Rightarrow> Inl KeyError
                          | Some z \<Rightarrow>
                              Inr (db\<lparr>atom_types := dict_set (atom_types db) (words ! 0)
                                     \<lparr>name = words ! 0, number = length (atom_types db) + 1,
                                      mass = m, atomic_number = z, epsilon = None,
                                      rmin = None\<rparr>\<rparr>)))))"

text \<open>\<^verbatim>\<open>_process_bond_line\<close>: one new \<^verbatim>\<open>BondType\<close> object, stored under the key as
  read and under the reversed key.\<close>

definition process_bond_line :: "param_db \<Rightarrow> string \<Rightarrow> py_error + param_db" where
  "process_bond_line db line =
     (case rx_match bondre 4 line of
        None \<Rightarrow> Inl (ParameterError (''Could not understand BOND line ['' @ line @ '']''))
      | Some g \<Rightarrow>
          (let a1 = strip (g ! 0); a2 = strip (g ! 1)
           in case float_of (g ! 2) of
                Inl e \<Rightarrow> Inl e
              | Inr k \<Rightarrow>
                  (case float_of (g ! 3) of
                     Inl e \<Rightarrow> Inl e
                   | Inr eq \<Rightarrow>
                       (let (typ, h) = alloc (bond_objs db) \<lparr>bond_k = k, req = eq\<rparr>
                        in Inr (db\<lparr>bond_objs := h,
                                   bond_types :=
                                     dict_set (dict_set (bond_types db) (a1, a2) typ)
                                              (a2, a1) typ\<rparr>)))))"

text \<open>\<^verbatim>\<open>_process_angle_line\<close>\<close>

definition process_angle_line :: "param_db \<Rightarrow> string \<Rightarrow> py_error + param_db" where
  "process_angle_line db line =
     (case rx_match anglere 5 line of
        None \<Rightarrow> Inl (ParameterError (''Could not understand ANGLE line ['' @ line @ '']''))
      | Some g \<Rightarrow>
          (let a1 = strip (g ! 0); a2 = strip (g ! 1); a3 = strip (g ! 2)
           in case float_of (g ! 3) of
                Inl e \<Rightarrow> Inl e
              | Inr k \<Rightarrow>
                  (case float_of (g ! 4) of
                     Inl e \<Rightarrow> Inl e
                   | Inr eq \<Rightarrow>
                       (let (typ, h) = alloc (angle_objs db) \<lparr>angle_k = k, theteq = eq\<rparr>
                        in Inr (db\<lparr>angle_objs := h,
                                   angle_types :=
                                     dict_set (dict_set (angle_types db) (a1, a2, a3) typ)
                                              (a3, a2, a1) typ\<rparr>)))))"

text \<open>Sequencing of computations that can raise: the first exception ends the
  computation.\<close>

definition bind :: "py_error + 'a \<Rightarrow> ('a \<Rightarrow> py_error + 'b) \<Rightarrow> py_error + 'b" where
  "bind x f = (case x of Inl e \<Rightarrow> Inl e | Inr v \<Rightarrow> f v)"

text \<open>\<^verbatim>\<open>[float(x) for x in xs]\<close>\<close>

fun floats_of :: "string list \<Rightarrow> py_error + pyfloat list" where
  "floats_of [] = Inr []"
| "floats_of (x # xs) =
     bind (float_of x) (\<lambda>v. bind (floats_of xs) (\<lambda>vs. Inr (v # vs)))"

definition warn :: "param_db \<Rightarrow> string \<Rightarrow> param_db" where
  "warn db msg = db\<lparr>warnings := warnings db @ [msg]\<rparr>"

subsection \<open>Dihedral lines\<close>

text \<open>
  \<open>finished_diheds\<close> is a \<^verbatim>\<open>defaultdict(lambda: True)\<close> local to one parse: a key
  it has not seen reads as \<open>True\<close>. (Reading such a key also enters it; the handler
  assigns the key before anything can observe that.)
\<close>

type_synonym finished = "key4 \<Rightarrow> bool option"

definition fd_get :: "finished \<Rightarrow> key4 \<Rightarrow> bool" where
  "fd_get f k = (case f k of None \<Rightarrow> True | Some b \<Rightarrow> b)"

definition reversed4 :: "key4 \<Rightarrow> key4" where
  "reversed4 k = (case k of (a1, a2, a3, a4) \<Rightarrow> (a4, a3, a2, a1))"

text \<open>
  The first half of \<^verbatim>\<open>_process_dihedral_line\<close>: which key the line is for and its
  four numeric fields \<^verbatim>\<open>div, k, phi, per\<close> as text. A line that does not carry atom
  types is a continuation line of \<open>last_key\<close>, which must be a key still awaiting
  terms. The database is returned because a full line for another key than the one
  awaited issues a warning.
\<close>

definition dihedral_head ::
  "param_db \<Rightarrow> finished \<Rightarrow> key4 option \<Rightarrow> string \<Rightarrow>
     py_error + (key4 \<times> key4 \<times> string \<times> string \<times> string \<times> string \<times> param_db)" where
  "dihedral_head db fin last_key line =
     (case rx_match dihedre 8 line of
        None \<Rightarrow>
          (case last_key of
             None \<Rightarrow> Inl (ParameterError (''Could not understand DIHEDRAL line ['' @ line @ '']''))
           | Some key \<Rightarrow>
               (case rx_match dihed2re 4 line of
                  None \<Rightarrow>
                    Inl (ParameterError (''Could not understand DIHEDRAL line ['' @ line @ '']''))
                | Some g \<Rightarrow>
                    if fin key = None then Inl (AssertionError [])
                    else if fd_get fin key then
                      Inl (AssertionError
                             ''Cannot have an implied torsion that has already finished!'')
                    else Inr (key, reversed4 key, g ! 0, g ! 1, g ! 2, g ! 3, db)))
      | Some g \<Rightarrow>
          (let a1 = strip (g ! 0); a2 = strip (g ! 1); a3 = strip (g ! 2); a4 = strip (g ! 3);
               key = (a1, a2, a3, a4); rkey = (a4, a3, a2, a1)
           in Inr (key, rkey, g ! 4, g ! 5, g ! 6, g ! 7,
                   if last_key \<noteq> None \<and> last_key \<noteq> Some key \<and> last_key \<noteq> Some rkey
                   then warn db ''Expecting next term in dihedral, got another dihedral''
                   else db)))"

text \<open>\<^verbatim>\<open>self.dihedral_types[key].append(typ)\<close>: the list object the key refers to grows
  in place, for every key that refers to it.\<close>

definition append_term :: "param_db \<Rightarrow> key4 \<Rightarrow> DihedralType \<Rightarrow> py_error + param_db" where
  "append_term db key typ =
     (case dict_get (dihedral_types db) key of
        None \<Rightarrow> Inl KeyError
      | Some r \<Rightarrow>
          (case deref (dihedral_objs db) r of
             Some (TypeList ts) \<Rightarrow>
               Inr (db\<lparr>dihedral_objs := (dihedral_objs db)[r := TypeList (ts @ [typ])]\<rparr>)
           | _ \<Rightarrow> Inl AttributeError))"

text \<open>A new \<^verbatim>\<open>DihedralTypeList\<close> holding \<open>typ\<close>, assigned to \<open>key\<close> and then to
  \<open>rkey\<close>.\<close>

definition replace_terms :: "param_db \<Rightarrow> key4 \<Rightarrow> key4 \<Rightarrow> DihedralType \<Rightarrow> param_db" where
  "replace_terms db key rkey typ =
     (let (typs, h) = alloc (dihedral_objs db) (TypeList [typ])
      in db\<lparr>dihedral_objs := h,
            dihedral_types := dict_set (dict_set (dihedral_types db) key typs) rkey typs\<rparr>)"

text \<open>\<^verbatim>\<open>_process_dihedral_line\<close>: returns the database, the updated
  \<open>finished_diheds\<close> and the key to pass to the next call (\<open>None\<close> unless the
  periodicity is negative).\<close>

definition process_dihedral_line ::
  "param_db \<Rightarrow> finished \<Rightarrow> key4 option \<Rightarrow> string \<Rightarrow>
     py_error + (param_db \<times> finished \<times> key4 option)" where
  "process_dihedral_line db fin last_key line =
     bind (dihedral_head db fin last_key line) (\<lambda>(key, rkey, dv, k, phi, pr, db1).
     bind (floats_of (map hd (rx_findall sceere 1 line))) (\<lambda>scees.
     bind (floats_of (map hd (rx_findall scnbre 1 line))) (\<lambda>scnbs.
     bind (float_of pr) (\<lambda>p.
     bind (float_of k) (\<lambda>kf.
     bind (float_of dv) (\<lambda>df.
     bind (pf_div kf df) (\<lambda>pk.
     bind (float_of phi) (\<lambda>ph.
       (let typ = \<lparr>phi_k = pk, per = pf_abs p, phase = ph,
                   scee = Some (hd (if scees = [] then [Fin 1.2] else scees)),
                   scnb = Some (hd (if scnbs = [] then [Fin 2.0] else scnbs))\<rparr>
        in bind (if fd_get fin key then Inr (replace_terms db1 key rkey typ)
                 else append_term db1 key typ) (\<lambda>db2.
             Inr (db2, fin(key \<mapsto> pf_ge p (Fin 0), rkey \<mapsto> pf_ge p (Fin 0)),
                  if pf_less p (Fin 0) then Some key else None)))))))))))"

text \<open>The terms a key resolves to, when it refers to a term list.\<close>

definition dihedral_terms :: "param_db \<Rightarrow> key4 \<Rightarrow> DihedralType list option" where
  "dihedral_terms db key =
     (case dict_get (dihedral_types db) key of
        None \<Rightarrow> None
      | Some r \<Rightarrow> (case deref (dihedral_objs db) r of
                     Some (TypeList ts) \<Rightarrow> Some ts
                   | _ \<Rightarrow> None))"

subsection \<open>Improper, nonbonded and LJEDIT lines\<close>

text \<open>\<^verbatim>\<open>_process_improper_line\<close>: the third atom stays, the other three are sorted.\<close>

definition process_improper_line :: "param_db \<Rightarrow> string \<Rightarrow> py_error + param_db" where
  "process_improper_line db line =
     (case rx_match impropre 7 line of
        None \<Rightarrow> Inl (ParameterError (''Could not understand IMPROPER line ['' @ line @ '']''))
      | Some g \<Rightarrow>
          (let a1 = strip (g ! 0); a2 = strip (g ! 1); a3 = strip (g ! 2); a4 = strip (g ! 3);
               srt = sort [a1, a2, a4];
               key = (srt ! 0, srt ! 1, a3, srt ! 2)
           in bind (float_of (g ! 4)) (\<lambda>k.
              bind (float_of (g ! 6)) (\<lambda>p.
              bind (float_of (g ! 5)) (\<lambda>phi.
                Inr (db\<lparr>improper_periodic_types :=
                          dict_set (improper_periodic_types db) key
                            \<lparr>phi_k = k, per = p, phase = phi, scee = None,
                             scnb = None\<rparr>\<rparr>))))))"

text \<open>\<^verbatim>\<open>_process_nonbond_line\<close>\<close>

definition process_nonbond_line :: "param_db \<Rightarrow> string \<Rightarrow> py_error + param_db" where
  "process_nonbond_line db line =
     (let ws = take 3 (split_ws line)
      in if length ws \<noteq> 3 then
           Inl (ParameterError (''Could not understand nonbond parameter line ['' @ line @ '']''))
         else
           (case dict_get (atom_types db) (ws ! 0) of
              None \<Rightarrow> Inl (ParameterError (''Atom type '' @ ws ! 0 @ '' not present in the database.''))
            | Some t \<Rightarrow>
                (case float_of (ws ! 2) of
                   Inl _ \<Rightarrow> Inl (ParameterError ''Could not convert nonbond parameters to floats'')
                 | Inr eps \<Rightarrow>
                     (case float_of (ws ! 1) of
                        Inl _ \<Rightarrow>
                          Inl (ParameterError ''Could not convert nonbond parameters to floats'')
                      | Inr r \<Rightarrow>
                          Inr (db\<lparr>atom_types :=
                                    dict_set (atom_types db) (ws ! 0) (set_lj_params t eps r)\<rparr>)))))"

text \<open>
  The table of equivalenced types of a parm.dat file is a
  \<^verbatim>\<open>defaultdict(list)\<close>: the types equivalenced to a type, none for a type it does
  not list.
\<close>

type_synonym equivalents = "(string, string list) dict"

definition eq_get :: "equivalents \<Rightarrow> string \<Rightarrow> string list" where
  "eq_get eqv a = (case dict_get eqv a of None \<Rightarrow> [] | Some ts \<Rightarrow> ts)"

text \<open>\<^verbatim>\<open>self.nbfix_types[(min(a, b), max(a, b))] = v\<close>\<close>

definition nbfix_set :: "pyfloat \<times> pyfloat \<Rightarrow> param_db \<Rightarrow> string \<times> string \<Rightarrow> param_db" where
  "nbfix_set v db ab =
     db\<lparr>nbfix_types := dict_set (nbfix_types db) (min (fst ab) (snd ab), max (fst ab) (snd ab)) v\<rparr>"

text \<open>\<^verbatim>\<open>_process_nbfix_line\<close>; \<open>equivalents\<close> is \<open>None\<close> when the caller passes no
  table (frcmod files).\<close>

definition process_nbfix_line ::
  "param_db \<Rightarrow> string \<Rightarrow> equivalents option \<Rightarrow> py_error + param_db" where
  "process_nbfix_line db line equivalents =
     (let ws = take 6 (split_ws line)
      in if length ws \<noteq> 6 then
           Inl (ParameterError (''Could not understand LJEDIT line ['' @ line @ '']''))
         else
           (case floats_of [ws ! 2, ws ! 3, ws ! 4, ws ! 5] of
              Inl _ \<Rightarrow> Inl (ParameterError ''Could not convert LJEDIT parameters to floats.'')
            | Inr fs \<Rightarrow>
                (let a1 = ws ! 0; a2 = ws ! 1;
                     rmin1 = fs ! 0; eps1 = fs ! 1; rmin2 = fs ! 2; eps2 = fs ! 3
                 in bind (pf_sqrt (pf_mul eps1 eps2)) (\<lambda>e.
                      (let v = (e, pf_add rmin1 rmin2);
                           db1 = nbfix_set v db (a1, a2)
                       in case equivalents of
                            None \<Rightarrow> Inr db1
                          | Some eqv \<Rightarrow>
                              (let db2 = foldl (nbfix_set v) db1
                                           (map (\<lambda>oa1. (oa1, a2)) (eq_get eqv a1));
                                   db3 = foldl (nbfix_set v) db2
                                           (map (\<lambda>oa2. (a1, oa2)) (eq_get eqv a2));
                                   db4 = foldl (nbfix_set v) db3
                                           (concat (map (\<lambda>oa1. map (\<lambda>oa2. (oa1, oa2))
                                                                    (eq_get eqv a2))
                                                        (eq_get eqv a1)))
                               in Inr db4))))))"

text \<open>
  The key of an improper as the specification words it, for comparison with the
  handler: a wildcard \<^verbatim>\<open>X\<close> in position 2 or 4 of the line is moved to position 1
  (exchanged with atom 1) and the two other flanking atoms are sorted; without such a
  wildcard the three flanking atoms are sorted. Atom 3 stays.
\<close>

definition spec_improper_key :: "string \<Rightarrow> string \<Rightarrow> string \<Rightarrow> string \<Rightarrow> key4" where
  "spec_improper_key a1 a2 a3 a4 =
     (if a2 = ''X'' then (''X'', min a1 a4, a3, max a1 a4)
      else if a4 = ''X'' then (''X'', min a2 a1, a3, max a2 a1)
      else (let srt = sort [a1, a2, a4] in (srt ! 0, srt ! 1, a3, srt ! 2)))"



section \<open>The serializer\<close>

subsection \<open>Format specifications\<close>

text \<open>\<^verbatim>\<open>f'{s:<n}'\<close>: the string padded with spaces on the right to width \<open>n\<close>;
  \<open>rjust\<close> pads on the left, as numbers are.\<close>

definition ljust :: "nat \<Rightarrow> string \<Rightarrow> string" where
  "ljust n s = s @ replicate (n - length s) CHR '' ''"

definition rjust :: "nat \<Rightarrow> string \<Rightarrow> string" where
  "rjust n s = replicate (n - length s) CHR '' '' @ s"

text \<open>The decimal digits of a natural number, and padded with zeros on the left.\<close>

function dec :: "nat \<Rightarrow> string" where
  "dec n = (if n < 10 then [''0123456789'' ! n] else dec (n div 10) @ [''0123456789'' ! (n mod 10)])"
  by pat_completeness auto
termination
  by (relation "measure (\<lambda>n. n)") auto

declare dec.simps [simp del]

definition zfill :: "nat \<Rightarrow> string \<Rightarrow> string" where
  "zfill n s = replicate (n - length s) CHR ''0'' @ s"

text \<open>Rounding to the nearest integer, ties to the even one: how a float is rounded
  to the digits that are printed.\<close>

definition round_half_even :: "real \<Rightarrow> int" where
  "round_half_even x =
     (let f = \<lfloor>x\<rfloor>; d = x - of_int f
      in if d < 1 / 2 then f else if 1 / 2 < d then f + 1
         else if even f then f else f + 1)"

text \<open>
  \<^verbatim>\<open>f'{x:w.pf}'\<close>: fixed notation with \<open>p\<close> digits after the point, at least \<open>w\<close>
  characters wide. A finite value is printed from the real number it stands for (a
  negative zero has no sign here).
\<close>

definition fmt_f :: "nat \<Rightarrow> nat \<Rightarrow> pyfloat \<Rightarrow> string" where
  "fmt_f w p v =
     rjust w
       (case v of
          Fin x \<Rightarrow>
            (let n = nat (round_half_even (\<bar>x\<bar> * 10 ^ p))
             in (if x < 0 then ''-'' else []) @ dec (n div 10 ^ p) @
                (if p = 0 then [] else ''.'' @ zfill p (dec (n mod 10 ^ p))))
        | PInf \<Rightarrow> ''inf''
        | NInf \<Rightarrow> ''-inf''
        | NaN \<Rightarrow> ''nan'')"

text \<open>A float format applied to an attribute that may be \<^verbatim>\<open>None\<close>: TypeError
  then.\<close>

definition fmt_f_opt :: "nat \<Rightarrow> nat \<Rightarrow> pyfloat option \<Rightarrow> py_error + string" where
  "fmt_f_opt w p v = (case v of None \<Rightarrow> Inl TypeError | Some x \<Rightarrow> Inr (fmt_f w p x))"

text \<open>
  \<^verbatim>\<open>f'{x}'\<close> of a float prints its shortest representation that reads back as the
  same binary float, which the real number alone does not determine: it is the
  parameter \<open>repr\<close> of the writer. \<^verbatim>\<open>None\<close> prints as \<^verbatim>\<open>None\<close>.
\<close>

definition fmt_repr :: "(pyfloat \<Rightarrow> string) \<Rightarrow> pyfloat option \<Rightarrow> string" where
  "fmt_repr repr v = (case v of None \<Rightarrow> ''None'' | Some x \<Rightarrow> repr x)"

text \<open>Running a step that can raise over a list and joining what the steps write.\<close>

fun write_all :: "('a \<Rightarrow> py_error + string) \<Rightarrow> 'a list \<Rightarrow> py_error + string" where
  "write_all f [] = Inr []"
| "write_all f (x # xs) = bind (f x) (\<lambda>s. bind (write_all f xs) (\<lambda>t. Inr (s @ t)))"

subsection \<open>Sections\<close>

text \<open>
  The loop \<^verbatim>\<open>if id(typ) in done: continue; done.add(id(typ))\<close>: the entries of a
  dictionary whose object has not been met before, in order; \<open>done\<close> holds the
  identities met so far.
\<close>

fun unique_by_id :: "ref list \<Rightarrow> ('k, ref) dict \<Rightarrow> ('k, ref) dict" where
  "unique_by_id done [] = []"
| "unique_by_id done ((k, r) # d) =
     (if r \<in> set done then unique_by_id done d else (k, r) # unique_by_id (r # done) d)"

text \<open>A reference held by a dictionary always has its object; the lookup of one that
  has none is given an error so that the model is total.\<close>

definition obj :: "'a store \<Rightarrow> ref \<Rightarrow> py_error + 'a" where
  "obj h r = (case deref h r of None \<Rightarrow> Inl KeyError | Some v \<Rightarrow> Inr v)"

definition mass_line_out :: "string \<times> AtomType \<Rightarrow> string" where
  "mass_line_out e = ljust 6 (fst e) @ fmt_f 6 3 (mass (snd e)) @ [CHR 0x0A]"

definition bond_line_out :: "param_db \<Rightarrow> key2 \<times> ref \<Rightarrow> py_error + string" where
  "bond_line_out db e =
     (case e of ((a1, a2), r) \<Rightarrow>
        bind (obj (bond_objs db) r) (\<lambda>typ.
          Inr (ljust 2 a1 @ ''-'' @ ljust 2 a2 @ ''   '' @ fmt_f 8 3 (bond_k typ) @ ''  '' @
               fmt_f 6 3 (req typ) @ [CHR 0x0A])))"

definition angle_line_out :: "param_db \<Rightarrow> key3 \<times> ref \<Rightarrow> py_error + string" where
  "angle_line_out db e =
     (case e of ((a1, a2, a3), r) \<Rightarrow>
        bind (obj (angle_objs db) r) (\<lambda>typ.
          Inr (ljust 2 a1 @ ''-'' @ ljust 2 a2 @ ''-'' @ ljust 2 a3 @ ''   '' @
               fmt_f 8 3 (angle_k typ) @ ''  '' @ fmt_f 6 3 (theteq typ) @ [CHR 0x0A])))"

text \<open>\<^verbatim>\<open>write_dtype\<close>; \<open>cont\<close> is \<open>-1\<close> for a term that is followed by another
  and \<open>1\<close> for the last.\<close>

definition write_dtype :: "(pyfloat \<Rightarrow> string) \<Rightarrow> key4 \<Rightarrow> real \<Rightarrow> DihedralType \<Rightarrow> string" where
  "write_dtype repr key cont typ =
     (case key of (a1, a2, a3, a4) \<Rightarrow>
        ljust 2 a1 @ ''-'' @ ljust 2 a2 @ ''-'' @ ljust 2 a3 @ ''-'' @ ljust 2 a4 @ '' '' @
        rjust 4 (dec 1) @ '' '' @ fmt_f 14 8 (phi_k typ) @ '' '' @ fmt_f 8 3 (phase typ) @ '' '' @
        fmt_f 5 1 (pf_mul (Fin cont) (per typ)) @ ''    SCEE='' @ fmt_repr repr (scee typ) @
        '' SCNB='' @ fmt_repr repr (scnb typ) @ [CHR 0x0A])"

definition dihedral_out :: "(pyfloat \<Rightarrow> string) \<Rightarrow> param_db \<Rightarrow> key4 \<times> ref \<Rightarrow> py_error + string" where
  "dihedral_out repr db e =
     (case e of (key, r) \<Rightarrow>
        bind (obj (dihedral_objs db) r) (\<lambda>typ.
          case typ of
            Single t \<Rightarrow> Inr (write_dtype repr key 1 t)
          | TypeList ts \<Rightarrow>
              if length ts = 1 then Inr (write_dtype repr key 1 (ts ! 0))
              else if ts = [] then Inl IndexError
              else Inr (concat (map (write_dtype repr key (- 1)) (butlast ts)) @
                        write_dtype repr key 1 (last ts))))"

text \<open>
  The impropers: the key is rearranged so that wildcards come first, and a
  rearranged key that was already written is skipped (an error when its record
  differs). \<open>written\<close> is the dictionary \<^verbatim>\<open>written_impropers\<close>.
\<close>

definition improper_out_key :: "key4 \<Rightarrow> py_error + key4" where
  "improper_out_key key =
     (case key of (a1, a2, a3, a4) \<Rightarrow>
        if a2 = ''X'' then
          (if a4 = ''X'' then Inr (a2, a4, a3, a1)
           else Inl (AssertionError ''Malformed generic improper!''))
        else if a4 = ''X'' then Inr (a4, min a1 a2, a3, max a1 a2)
        else (let srt = sort [a1, a2, a4] in Inr (srt ! 0, srt ! 1, a3, srt ! 2)))"

fun impropers_out ::
  "(key4, DihedralType) dict \<Rightarrow> (key4, DihedralType) dict \<Rightarrow> py_error + string" where
  "impropers_out written [] = Inr []"
| "impropers_out written ((key, typ) # d) =
     bind (improper_out_key key) (\<lambda>k.
       case dict_get written k of
         Some t \<Rightarrow> if t \<noteq> typ then Inl ValueError else impropers_out written d
       | None \<Rightarrow>
           bind (impropers_out (dict_set written k typ) d) (\<lambda>rest.
             Inr ((case k of (a1, a2, a3, a4) \<Rightarrow>
                     ljust 2 a1 @ ''-'' @ ljust 2 a2 @ ''-'' @ ljust 2 a3 @ ''-'' @ ljust 2 a4 @
                     '' '' @ fmt_f 14 8 (phi_k typ) @ '' '' @ fmt_f 8 3 (phase typ) @ '' '' @
                     fmt_f 5 1 (per typ) @ [CHR 0x0A]) @ rest)))"

definition nonb_line_out :: "string \<times> AtomType \<Rightarrow> py_error + string" where
  "nonb_line_out e =
     bind (fmt_f_opt 12 8 (rmin (snd e))) (\<lambda>r.
     bind (fmt_f_opt 12 8 (epsilon (snd e))) (\<lambda>eps.
       Inr (ljust 2 (fst e) @ ''  '' @ r @ '' '' @ eps @ [CHR 0x0A])))"

text \<open>An LJEDIT line: the stored pair is unpacked as \<^verbatim>\<open>(eps, rmin)\<close> and written as
  \<^verbatim>\<open>eps, rmin / 2, eps, rmin / 2\<close>.\<close>

definition nbfix_line_out :: "key2 \<times> pyfloat \<times> pyfloat \<Rightarrow> py_error + string" where
  "nbfix_line_out e =
     (case e of ((a1, a2), (eps, rm)) \<Rightarrow>
        bind (pf_div rm (Fin 2)) (\<lambda>half.
          Inr (ljust 2 a1 @ '' '' @ ljust 2 a2 @ '' '' @ fmt_f 12 8 eps @ '' '' @
               fmt_f 12 8 half @ '' '' @ fmt_f 12 8 eps @ '' '' @ fmt_f 12 8 half @
               [CHR 0x0A])))"

subsection \<open>\<^verbatim>\<open>AmberParameterSet.write\<close>\<close>

text \<open>
  The text written to \<open>dest\<close>, or the exception raised. The argument \<open>style\<close> is
  checked and then never looked at again: the body below is the whole method.
\<close>

definition write_db ::
  "(pyfloat \<Rightarrow> string) \<Rightarrow> param_db \<Rightarrow> string \<Rightarrow> string \<Rightarrow> py_error + string" where
  "write_db repr db title style =
     (if style \<noteq> ''frcmod'' \<and> style \<noteq> ''parm'' then Inl ValueError
      else
        bind (write_all (bond_line_out db) (unique_by_id [] (bond_types db))) (\<lambda>bonds.
        bind (write_all (angle_line_out db) (unique_by_id [] (angle_types db))) (\<lambda>angles.
        bind (write_all (dihedral_out repr db) (unique_by_id [] (dihedral_types db))) (\<lambda>diheds.
        bind (impropers_out [] (improper_periodic_types db)) (\<lambda>improps.
        bind (write_all nonb_line_out (atom_types db)) (\<lambda>nonb.
        bind (if nbfix_types db = [] then Inr []
              else bind (write_all nbfix_line_out (nbfix_types db)) (\<lambda>s.
                     Inr (''LJEDIT'' @ [CHR 0x0A] @ s))) (\<lambda>ljedit.
          Inr (rstrip_crlf title @ [CHR 0x0A] @
               ''MASS'' @ [CHR 0x0A] @ concat (map mass_line_out (atom_types db)) @ [CHR 0x0A] @
               ''BOND'' @ [CHR 0x0A] @ bonds @ [CHR 0x0A] @
               ''ANGLE'' @ [CHR 0x0A] @ angles @ [CHR 0x0A] @
               ''DIHE'' @ [CHR 0x0A] @ diheds @ [CHR 0x0A] @
               ''IMPROPER'' @ [CHR 0x0A] @ improps @ [CHR 0x0A] @
               ''NONB'' @ [CHR 0x0A] @ nonb @ [CHR 0x0A] @
               ljedit))))))))"

text \<open>What a dihedral line says, as \<^verbatim>\<open>_process_dihedral_line\<close> reads it: the key it is
  for and its periodicity field as a number.\<close>

definition dihedral_key_per ::
  "param_db \<Rightarrow> finished \<Rightarrow> key4 option \<Rightarrow> string \<Rightarrow> (key4 \<times> pyfloat) option" where
  "dihedral_key_per db fin last_key line =
     (case dihedral_head db fin last_key line of
        Inl _ \<Rightarrow> None
      | Inr (key, rkey, dv, k, phi, pr, db1) \<Rightarrow>
          (case py_float pr of None \<Rightarrow> None | Some p \<Rightarrow> Some (key, p)))"

section \<open>Reading a parameter file\<close>

text \<open>
  A file that is read is the list of its lines, each with its line end, in the order
  the file object yields them.
\<close>

fun file_lines :: "string \<Rightarrow> string list" where
  "file_lines [] = []"
| "file_lines (c # cs) =
     (if c = CHR 0x0A then [c] # file_lines cs
      else case file_lines cs of [] \<Rightarrow> [[c]] | l # ls \<Rightarrow> (c # l) # ls)"

text \<open>
  \<^verbatim>\<open>_parse_frcmod\<close>: the loop over the lines; \<open>section\<close> is the section being read,
  \<open>fin\<close> the dictionary \<^verbatim>\<open>finished_diheds\<close> and \<open>key\<close> the dihedral key awaiting terms.
\<close>

fun parse_frcmod_loop ::
  "periodic_table \<Rightarrow> string list \<Rightarrow> param_db \<Rightarrow> string option \<Rightarrow> finished \<Rightarrow> key4 option \<Rightarrow>
     py_error + param_db" where
  "parse_frcmod_loop pt [] db section fin key = Inr db"
| "parse_frcmod_loop pt (raw # ls) db section fin key =
     (let line = rstrip raw
      in if line = [] then parse_frcmod_loop pt ls db section fin key
         else if startswith line ''MASS'' then parse_frcmod_loop pt ls db (Some ''MASS'') fin key
         else if startswith line ''BOND'' then parse_frcmod_loop pt ls db (Some ''BOND'') fin key
         else if startswith line ''ANGL'' then parse_frcmod_loop pt ls db (Some ''ANGLE'') fin key
         else if startswith line ''DIHE'' then
           parse_frcmod_loop pt ls db (Some ''DIHEDRAL'') fin key
         else if startswith line ''IMPR'' then
           parse_frcmod_loop pt ls db (Some ''IMPROPER'') fin key
         else if startswith line ''NONB'' then
           parse_frcmod_loop pt ls db (Some ''NONBOND'') fin key
         else if startswith line ''LJEDIT'' then
           parse_frcmod_loop pt ls db (Some ''NBFIX'') fin key
         else if section = Some ''MASS'' then
           bind (process_mass_line pt db line) (\<lambda>db'.
             parse_frcmod_loop pt ls db' section fin key)
         else if section = Some ''BOND'' then
           bind (process_bond_line db line) (\<lambda>db'.
             parse_frcmod_loop pt ls db' section fin key)
         else if section = Some ''ANGLE'' then
           bind (process_angle_line db line) (\<lambda>db'.
             parse_frcmod_loop pt ls db' section fin key)
         else if section = Some ''DIHEDRAL'' then
           bind (process_dihedral_line db fin key line) (\<lambda>(db', fin', key').
             parse_frcmod_loop pt ls db' section fin' key')
         else if section = Some ''IMPROPER'' then
           bind (process_improper_line db line) (\<lambda>db'.
             parse_frcmod_loop pt ls db' section fin key)
         else if section = Some ''NONBOND'' then
           bind (process_nonbond_line db line) (\<lambda>db'.
             parse_frcmod_loop pt ls db' section fin key)
         else if section = Some ''NBFIX'' then
           bind (process_nbfix_line db line None) (\<lambda>db'.
             parse_frcmod_loop pt ls db' section fin key)
         else parse_frcmod_loop pt ls db section fin key)"

definition parse_frcmod :: "periodic_table \<Rightarrow> param_db \<Rightarrow> string list \<Rightarrow> py_error + param_db" where
  "parse_frcmod pt db ls = parse_frcmod_loop pt ls db None Map.empty None"

text \<open>
  \<^verbatim>\<open>load_parameters\<close> on an open file: the first line is the title; the next line
  decides between the two parsers, which then read from that line on. The parser of
  \<^verbatim>\<open>parm.dat\<close> files is the parameter \<open>parse_parm_dat\<close>.
\<close>

definition frcmod_headers :: "string list" where
  "frcmod_headers =
     [''MASS'', ''BOND'', ''ANGLE'', ''ANGL'', ''DIHE'', ''DIHED'', ''DIHEDRAL'', ''IMPR'',
      ''IMPROP'', ''IMPROPER'', ''NONB'', ''NONBON'', ''NONBOND'', ''NONBONDED'']"

definition load_parameters ::
  "(param_db \<Rightarrow> string list \<Rightarrow> py_error + param_db) \<Rightarrow> periodic_table \<Rightarrow> param_db \<Rightarrow>
     string list \<Rightarrow> py_error + param_db" where
  "load_parameters parse_parm_dat pt db f =
     (let db1 = db\<lparr>titles := titles db @ [strip (case f of [] \<Rightarrow> [] | l # _ \<Rightarrow> l)]\<rparr>
      in case tl f of
           [] \<Rightarrow> Inr db1
         | line # ls \<Rightarrow>
             if strip line = [] \<or> strip line \<in> set frcmod_headers
             then parse_frcmod pt db1 (line # ls)
             else parse_parm_dat db1 (line # ls))"

section \<open>Verified properties\<close>

subsection \<open>Dictionaries\<close>

lemma map_of_dict_set: "map_of (dict_set d k v) = (map_of d)(k \<mapsto> v)"
  by (induction d) (auto simp: fun_eq_iff)

lemma keys_dict_set_present:
  "map_of d k \<noteq> None \<Longrightarrow> map fst (dict_set d k v) = map fst d"
  by (induction d) auto

lemma keys_dict_set_absent:
  "map_of d k = None \<Longrightarrow> map fst (dict_set d k v) = map fst d @ [k]"
  by (induction d) auto

lemmas py_float_defs =
  py_float_def strip_def lstrip_def rstrip_def is_space_def abs_number_def digitpart_def
  is_digit_def exponent_def decimal_value_def nat_of_digits_def digit_val_def to_lower_def
  is_upper_def

subsection \<open>Helpers\<close>

lemma bind_Inr_iff: "bind x f = Inr y \<longleftrightarrow> (\<exists>v. x = Inr v \<and> f v = Inr y)"
  by (cases x) (auto simp: bind_def)

lemma sort3: "\<exists>x y z. sort [a, b, c :: 'a :: linorder] = [x, y, z]"
proof -
  have "length (sort [a, b, c]) = 3" by simp
  then show ?thesis
    by (auto simp: length_Suc_conv numeral_3_eq_3)
qed

lemmas str_defs = strip_def lstrip_def rstrip_def is_space_def

subsection \<open>Evaluating the format specifications\<close>

lemma replicate_num: "replicate (numeral k) x = x # replicate (pred_numeral k) x"
  by (simp add: numeral_eq_Suc)

lemma fmt_f_Fin:
  "fmt_f w p (Fin x) =
     rjust w ((if x < 0 then ''-'' else []) @
              dec (nat (round_half_even (\<bar>x\<bar> * 10 ^ p)) div 10 ^ p) @
              (if p = 0 then []
               else ''.'' @ zfill p (dec (nat (round_half_even (\<bar>x\<bar> * 10 ^ p)) mod 10 ^ p))))"
  by (simp add: fmt_f_def Let_def)

lemma round_half_even_eval:
  "round_half_even x =
     (if x - of_int \<lfloor>x\<rfloor> < 1 / 2 then \<lfloor>x\<rfloor>
      else if 1 / 2 < x - of_int \<lfloor>x\<rfloor> then \<lfloor>x\<rfloor> + 1
      else if even \<lfloor>x\<rfloor> then \<lfloor>x\<rfloor> else \<lfloor>x\<rfloor> + 1)"
  by (simp add: round_half_even_def Let_def)

lemmas fmt_eval =
  fmt_f_Fin round_half_even_eval dec.simps zfill_def rjust_def ljust_def replicate_num

subsection \<open>Mass lines\<close>

text \<open>
  C10. A mass line whose first word names an atom type already in the database (and
  whose second word is a number) is processed without error and assigns that atom
  type's mass only: the record keeps its atomic number, its Lennard-Jones parameters
  and every other field; the dictionary of atom types keeps the same names in the same
  order, so no record is created; every other atom type is as before; and every other
  part of the database is as before.
\<close>

theorem mass_line_existing_type:
  assumes present: "dict_get (atom_types db) (hd (split_ws line)) = Some t"
      and toks: "2 \<le> length (split_ws line)"
      and num: "py_float (split_ws line ! 1) = Some m"
  shows "\<exists>db'. process_mass_line pt db line = Inr db' \<and>
           dict_get (atom_types db') (hd (split_ws line)) = Some (t\<lparr>mass := m\<rparr>) \<and>
           map fst (atom_types db') = map fst (atom_types db) \<and>
           (\<forall>n. n \<noteq> hd (split_ws line) \<longrightarrow>
                dict_get (atom_types db') n = dict_get (atom_types db) n) \<and>
           db'\<lparr>atom_types := atom_types db\<rparr> = db"
proof -
  from toks have hd0: "split_ws line ! 0 = hd (split_ws line)"
    by (cases "split_ws line") auto
  from toks have idx: "index (split_ws line) 1 = Inr (split_ws line ! 1)"
    by (simp add: index_def)
  let ?db' = "db\<lparr>atom_types := dict_set (atom_types db) (hd (split_ws line)) (t\<lparr>mass := m\<rparr>)\<rparr>"
  have run: "process_mass_line pt db line = Inr ?db'"
    using present num idx hd0 by (simp add: process_mass_line_def float_of_def Let_def)
  have "map_of (atom_types db) (hd (split_ws line)) \<noteq> None"
    using present by (simp add: dict_get_def)
  then have keys: "map fst (atom_types ?db') = map fst (atom_types db)"
    by (simp add: keys_dict_set_present)
  show ?thesis
    using run keys by (auto simp: dict_get_def map_of_dict_set)
qed

theorem mass_line_existing_type_witness:
  "\<forall>pt. \<exists>db'. process_mass_line pt
           (empty_db\<lparr>atom_types :=
              [(''CT'', \<lparr>name = ''CT'', number = 1, mass = Fin 12, atomic_number = 6,
                        epsilon = Some (Fin 0.1094), rmin = Some (Fin 1.908)\<rparr>)]\<rparr>)
           ''CT 12.01         0.878               sp3 aliphatic carbon'' = Inr db' \<and>
         dict_get (atom_types db') ''CT'' =
           Some \<lparr>name = ''CT'', number = 1, mass = Fin 12.01, atomic_number = 6,
                 epsilon = Some (Fin 0.1094), rmin = Some (Fin 1.908)\<rparr> \<and>
         map fst (atom_types db') = [''CT'']"
proof -
  let ?line = "''CT 12.01         0.878               sp3 aliphatic carbon''"
  let ?t = "\<lparr>name = ''CT'', number = 1, mass = Fin 12, atomic_number = 6,
             epsilon = Some (Fin 0.1094), rmin = Some (Fin 1.908)\<rparr>"
  let ?db = "empty_db\<lparr>atom_types := [(''CT'', ?t)]\<rparr>"
  have ws: "split_ws ?line = [''CT'', ''12.01'', ''0.878'', ''sp3'', ''aliphatic'', ''carbon'']"
    by (simp add: split_ws_def is_space_def)
  have num: "py_float (split_ws ?line ! 1) = Some (Fin 12.01)"
    unfolding ws by (simp add: py_float_defs)
  have present: "dict_get (atom_types ?db) (hd (split_ws ?line)) = Some ?t"
    unfolding ws by (simp add: dict_get_def)
  have toks: "2 \<le> length (split_ws ?line)"
    unfolding ws by simp
  have "\<exists>db'. process_mass_line pt ?db ?line = Inr db' \<and>
          dict_get (atom_types db') ''CT'' = Some (?t\<lparr>mass := Fin 12.01\<rparr>) \<and>
          map fst (atom_types db') = [''CT'']" for pt
    using mass_line_existing_type [OF present toks num, of pt] unfolding ws by auto
  then show ?thesis by simp
qed

subsection \<open>Improper lines\<close>

lemma improper_run:
  assumes run: "process_improper_line db line = Inr db'"
  shows "\<exists>g. rx_match impropre 7 line = Some g"
  using run by (cases "rx_match impropre 7 line") (simp_all add: process_improper_line_def)

text \<open>
  C2 (as amended). When an improper line is processed without error, the entry is
  stored under a key whose third atom is the line's third atom (stripped) and whose
  atoms 1, 2 and 4 are the line's atoms 1, 2 and 4 (stripped) in ascending order:
  sorted, and the same three names with their multiplicities. A wildcard \<^verbatim>\<open>X\<close> is a
  name like any other here. The record holds the line's three numbers; no other key
  and no other part of the database changes.
\<close>

theorem improper_key_sorted:
  assumes run: "process_improper_line db line = Inr db'"
  shows "\<exists>g k1 k2 k4 typ.
           rx_match impropre 7 line = Some g \<and>
           dict_get (improper_periodic_types db') (k1, k2, strip (g ! 2), k4) = Some typ \<and>
           sorted [k1, k2, k4] \<and>
           mset [k1, k2, k4] = mset [strip (g ! 0), strip (g ! 1), strip (g ! 3)] \<and>
           float_of (g ! 4) = Inr (phi_k typ) \<and> float_of (g ! 5) = Inr (phase typ) \<and>
           float_of (g ! 6) = Inr (per typ) \<and>
           (\<forall>key. key \<noteq> (k1, k2, strip (g ! 2), k4) \<longrightarrow>
                dict_get (improper_periodic_types db') key =
                dict_get (improper_periodic_types db) key) \<and>
           db'\<lparr>improper_periodic_types := improper_periodic_types db\<rparr> = db"
proof -
  from improper_run [OF run] obtain g where g: "rx_match impropre 7 line = Some g" ..
  obtain x y z where srt: "sort [strip (g ! 0), strip (g ! 1), strip (g ! 3)] = [x, y, z]"
    using sort3 by blast
  have sorted: "sorted [x, y, z]"
    using sorted_sort [of "[strip (g ! 0), strip (g ! 1), strip (g ! 3)]"] unfolding srt .
  have ms: "mset [x, y, z] = mset [strip (g ! 0), strip (g ! 1), strip (g ! 3)]"
    using mset_sort [of "\<lambda>x. x" "[strip (g ! 0), strip (g ! 1), strip (g ! 3)]"] unfolding srt .
  from run g srt obtain k p phi where
    fl: "float_of (g ! 4) = Inr k" "float_of (g ! 6) = Inr p" "float_of (g ! 5) = Inr phi" and
    db': "db' = db\<lparr>improper_periodic_types :=
                    dict_set (improper_periodic_types db) (x, y, strip (g ! 2), z)
                      \<lparr>phi_k = k, per = p, phase = phi, scee = None, scnb = None\<rparr>\<rparr>"
    by (auto simp add: process_improper_line_def Let_def bind_Inr_iff simp del: sort_key_simps)
  have look: "dict_get (improper_periodic_types db') (x, y, strip (g ! 2), z) =
                Some \<lparr>phi_k = k, per = p, phase = phi, scee = None, scnb = None\<rparr>"
    unfolding db' by (simp add: dict_get_def map_of_dict_set)
  have frame: "\<forall>key. key \<noteq> (x, y, strip (g ! 2), z) \<longrightarrow>
                dict_get (improper_periodic_types db') key =
                dict_get (improper_periodic_types db) key"
    unfolding db' by (simp add: dict_get_def map_of_dict_set)
  have rest: "db'\<lparr>improper_periodic_types := improper_periodic_types db\<rparr> = db"
    unfolding db' by simp
  show ?thesis
    apply (rule exI [of _ g], rule exI [of _ x], rule exI [of _ y], rule exI [of _ z])
    apply (rule exI [of _ "\<lparr>phi_k = k, per = p, phase = phi, scee = None, scnb = None\<rparr>"])
    apply (intro conjI)
    using g sorted ms fl look frame rest by simp_all
qed

lemma improper_match_NCCAH:
  "rx_match impropre 7 ''N -C -CA-H          1.1          180.          2.'' =
     Some [''N '', ''C '', ''CA'', ''H '', ''1.1'', ''180.'', ''2.'']"
  by code_simp

lemma improper_run_NCCAH:
  "process_improper_line empty_db ''N -C -CA-H          1.1          180.          2.'' =
     Inr (empty_db\<lparr>improper_periodic_types :=
            [((''C'', ''H'', ''CA'', ''N''),
              \<lparr>phi_k = Fin 1.1, per = Fin 2, phase = Fin 180, scee = None, scnb = None\<rparr>)]\<rparr>)"
  by (simp add: process_improper_line_def improper_match_NCCAH str_defs float_of_def
        py_float_defs bind_def empty_db_def Let_def)

text \<open>The example of the claim: atoms \<^verbatim>\<open>(N, C, CA, H)\<close> are stored under
  \<^verbatim>\<open>(C, H, CA, N)\<close>.\<close>

theorem improper_key_sorted_witness:
  "process_improper_line empty_db ''N -C -CA-H          1.1          180.          2.'' =
     Inr (empty_db\<lparr>improper_periodic_types :=
            [((''C'', ''H'', ''CA'', ''N''),
              \<lparr>phi_k = Fin 1.1, per = Fin 2, phase = Fin 180, scee = None, scnb = None\<rparr>)]\<rparr>) \<and>
   (\<exists>g k1 k2 k4 typ.
      rx_match impropre 7 ''N -C -CA-H          1.1          180.          2.'' = Some g \<and>
      dict_get (improper_periodic_types
                  (empty_db\<lparr>improper_periodic_types :=
                     [((''C'', ''H'', ''CA'', ''N''),
                       \<lparr>phi_k = Fin 1.1, per = Fin 2, phase = Fin 180, scee = None,
                        scnb = None\<rparr>)]\<rparr>))
               (k1, k2, strip (g ! 2), k4) = Some typ \<and>
      sorted [k1, k2, k4] \<and>
      mset [k1, k2, k4] = mset [strip (g ! 0), strip (g ! 1), strip (g ! 3)])"
proof -
  from improper_key_sorted [OF improper_run_NCCAH]
  have "\<exists>g k1 k2 k4 typ.
      rx_match impropre 7 ''N -C -CA-H          1.1          180.          2.'' = Some g \<and>
      dict_get (improper_periodic_types
                  (empty_db\<lparr>improper_periodic_types :=
                     [((''C'', ''H'', ''CA'', ''N''),
                       \<lparr>phi_k = Fin 1.1, per = Fin 2, phase = Fin 180, scee = None,
                        scnb = None\<rparr>)]\<rparr>))
               (k1, k2, strip (g ! 2), k4) = Some typ \<and>
      sorted [k1, k2, k4] \<and>
      mset [k1, k2, k4] = mset [strip (g ! 0), strip (g ! 1), strip (g ! 3)]"
    by blast
  with improper_run_NCCAH show ?thesis by (rule conjI)
qed

lemma improper_match_XXCO:
  "rx_match impropre 7
     ''X -X -C -O          10.5         180.          2.           JCC,7,(1986),230'' =
     Some [''X '', ''X '', ''C '', ''O '', ''10.5'', ''180.'', ''2.'']"
  by code_simp

text \<open>
  The claim as stated fails: it has a wildcard in position 2 or 4 of the line moved to
  position 1 of the stored key. The generic improper of the Amber files,
  \<^verbatim>\<open>X -X -C -O\<close>, is stored under \<^verbatim>\<open>(O, X, C, X)\<close>: \<^verbatim>\<open>O\<close> sorts before \<^verbatim>\<open>X\<close>, and the
  handler only sorts. (The writer is where wildcards are brought to the front.)
\<close>

theorem improper_wildcard_counterexample:
  "process_improper_line empty_db
     ''X -X -C -O          10.5         180.          2.           JCC,7,(1986),230'' =
     Inr (empty_db\<lparr>improper_periodic_types :=
            [((''O'', ''X'', ''C'', ''X''),
              \<lparr>phi_k = Fin 10.5, per = Fin 2, phase = Fin 180, scee = None, scnb = None\<rparr>)]\<rparr>) \<and>
   spec_improper_key ''X'' ''X'' ''C'' ''O'' = (''X'', ''O'', ''C'', ''X'') \<and>
   (''O'', ''X'', ''C'', ''X'') \<noteq> spec_improper_key ''X'' ''X'' ''C'' ''O''"
  by (simp add: process_improper_line_def improper_match_XXCO str_defs float_of_def
        py_float_defs bind_def empty_db_def spec_improper_key_def Let_def)

subsection \<open>LJEDIT lines\<close>










subsection \<open>Bond and angle records: one object under two keys, written once\<close>


lemma deref_alloc:
  "alloc h v = (r, h') \<Longrightarrow>
     r = length h \<and> deref h r = None \<and> deref h' r = Some v \<and>
     (\<forall>r' t. deref h r' = Some t \<longrightarrow> deref h' r' = Some t)"
  by (auto simp: alloc_def deref_def nth_append)

lemma bond_line_shared:
  assumes run: "process_bond_line db line = Inr db'"
  shows "\<exists>g typ.
           rx_match bondre 4 line = Some g \<and>
           dict_get (bond_types db') (strip (g ! 0), strip (g ! 1)) = Some (length (bond_objs db)) \<and>
           dict_get (bond_types db') (strip (g ! 1), strip (g ! 0)) = Some (length (bond_objs db)) \<and>
           deref (bond_objs db) (length (bond_objs db)) = None \<and>
           deref (bond_objs db') (length (bond_objs db)) = Some typ \<and>
           float_of (g ! 2) = Inr (bond_k typ) \<and> float_of (g ! 3) = Inr (req typ) \<and>
           (\<forall>r t. deref (bond_objs db) r = Some t \<longrightarrow> deref (bond_objs db') r = Some t)"
proof -
  from run obtain g where g: "rx_match bondre 4 line = Some g"
    by (cases "rx_match bondre 4 line") (simp_all add: process_bond_line_def)
  from run g obtain k eq where
    fl: "float_of (g ! 2) = Inr k" "float_of (g ! 3) = Inr eq" and
    db': "db' = db\<lparr>bond_objs := bond_objs db @ [\<lparr>bond_k = k, req = eq\<rparr>],
                   bond_types := dict_set (dict_set (bond_types db) (strip (g ! 0), strip (g ! 1))
                                            (length (bond_objs db)))
                                   (strip (g ! 1), strip (g ! 0)) (length (bond_objs db))\<rparr>"
    by (auto simp: process_bond_line_def Let_def alloc_def split: sum.splits)
  show ?thesis
    apply (rule exI [of _ g], rule exI [of _ "\<lparr>bond_k = k, req = eq\<rparr>"])
    using g fl unfolding db'
    by (simp add: dict_get_def map_of_dict_set deref_def nth_append)
qed

lemma angle_line_shared:
  assumes run: "process_angle_line db line = Inr db'"
  shows "\<exists>g typ.
           rx_match anglere 5 line = Some g \<and>
           dict_get (angle_types db') (strip (g ! 0), strip (g ! 1), strip (g ! 2)) =
             Some (length (angle_objs db)) \<and>
           dict_get (angle_types db') (strip (g ! 2), strip (g ! 1), strip (g ! 0)) =
             Some (length (angle_objs db)) \<and>
           deref (angle_objs db) (length (angle_objs db)) = None \<and>
           deref (angle_objs db') (length (angle_objs db)) = Some typ \<and>
           float_of (g ! 3) = Inr (angle_k typ) \<and> float_of (g ! 4) = Inr (theteq typ) \<and>
           (\<forall>r t. deref (angle_objs db) r = Some t \<longrightarrow> deref (angle_objs db') r = Some t)"
proof -
  from run obtain g where g: "rx_match anglere 5 line = Some g"
    by (cases "rx_match anglere 5 line") (simp_all add: process_angle_line_def)
  from run g obtain k eq where
    fl: "float_of (g ! 3) = Inr k" "float_of (g ! 4) = Inr eq" and
    db': "db' = db\<lparr>angle_objs := angle_objs db @ [\<lparr>angle_k = k, theteq = eq\<rparr>],
                   angle_types :=
                     dict_set (dict_set (angle_types db)
                                 (strip (g ! 0), strip (g ! 1), strip (g ! 2))
                                 (length (angle_objs db)))
                       (strip (g ! 2), strip (g ! 1), strip (g ! 0)) (length (angle_objs db))\<rparr>"
    by (auto simp: process_angle_line_def Let_def alloc_def split: sum.splits)
  show ?thesis
    apply (rule exI [of _ g], rule exI [of _ "\<lparr>angle_k = k, theteq = eq\<rparr>"])
    using g fl unfolding db'
    by (simp add: dict_get_def map_of_dict_set deref_def nth_append)
qed

lemma unique_by_id_refs:
  "snd ` set (unique_by_id seen d) = snd ` set d - set seen"
proof (induction d arbitrary: seen)
  case Nil
  then show ?case by simp
next
  case (Cons e d)
  obtain k r where e: "e = (k, r)" by (cases e)
  show ?case
  proof (cases "r \<in> set seen")
    case True
    then show ?thesis using Cons.IH [of seen] by (auto simp: e)
  next
    case False
    then show ?thesis using Cons.IH [of "r # seen"] by (auto simp: e)
  qed
qed

lemma unique_by_id_distinct:
  "distinct (map snd (unique_by_id seen d))"
proof (induction d arbitrary: seen)
  case Nil
  then show ?case by simp
next
  case (Cons e d)
  obtain k r where e: "e = (k, r)" by (cases e)
  have "r \<notin> snd ` set (unique_by_id (r # seen) d)"
    unfolding unique_by_id_refs by simp
  then show ?case using Cons.IH by (simp add: e)
qed

lemma unique_by_id_subset:
  "set (unique_by_id seen d) \<subseteq> set d"
proof (induction d arbitrary: seen)
  case Nil
  then show ?case by simp
next
  case (Cons e d)
  obtain k r where e: "e = (k, r)" by (cases e)
  show ?case using Cons.IH [of seen] Cons.IH [of "r # seen"] by (auto simp: e)
qed

text \<open>The entry written for an object is the first entry of the dictionary that
  refers to it.\<close>

lemma unique_by_id_first:
  "unique_by_id seen d = filter (\<lambda>e. snd e \<notin> set seen) (unique_by_id [] d)"
proof (induction d arbitrary: seen)
  case Nil
  then show ?case by simp
next
  case (Cons e d)
  obtain k r where e: "e = (k, r)" by (cases e)
  have a: "unique_by_id [r] d = filter (\<lambda>e. snd e \<notin> set [r]) (unique_by_id [] d)"
    by (rule Cons.IH)
  have b: "unique_by_id (r # seen) d = filter (\<lambda>e. snd e \<notin> set (r # seen)) (unique_by_id [] d)"
    by (rule Cons.IH)
  have c: "unique_by_id seen d = filter (\<lambda>e. snd e \<notin> set seen) (unique_by_id [] d)"
    by (rule Cons.IH)
  show ?case
  proof (cases "r \<in> set seen")
    case True
    then have "filter (\<lambda>e. snd e \<notin> set seen) (unique_by_id [r] d) = unique_by_id seen d"
      unfolding a c by (auto intro: filter_cong)
    with True show ?thesis by (simp add: e)
  next
    case False
    have "filter (\<lambda>e. snd e \<notin> set seen) (unique_by_id [r] d) = unique_by_id (r # seen) d"
      unfolding a b by (auto intro: filter_cong)
    with False show ?thesis by (simp add: e)
  qed
qed


lemma write_all_lines:
  "write_all f xs = Inr s \<Longrightarrow> \<exists>ls. list_all2 (\<lambda>x l. f x = Inr l) xs ls \<and> s = concat ls"
proof (induction xs arbitrary: s)
  case Nil
  then show ?case by simp
next
  case (Cons x xs)
  from Cons.prems obtain l t where
    l: "f x = Inr l" and t: "write_all f xs = Inr t" and s: "s = l @ t"
    by (auto simp: bind_Inr_iff)
  from Cons.IH [OF t] obtain ls where
    ls: "list_all2 (\<lambda>x l. f x = Inr l) xs ls" "t = concat ls" by blast
  have "list_all2 (\<lambda>x l. f x = Inr l) (x # xs) (l # ls)" using l ls by simp
  moreover have "s = concat (l # ls)" using s ls by simp
  ultimately show ?case by blast
qed

lemma write_db_sections:
  assumes "write_db repr db title style = Inr out"
  shows "\<exists>bonds angles pre post.
           write_all (bond_line_out db) (unique_by_id [] (bond_types db)) = Inr bonds \<and>
           write_all (angle_line_out db) (unique_by_id [] (angle_types db)) = Inr angles \<and>
           out = pre @ ''BOND'' @ [CHR 0x0A] @ bonds @ [CHR 0x0A] @
                 ''ANGLE'' @ [CHR 0x0A] @ angles @ [CHR 0x0A] @ post"
proof -
  from assms obtain bonds angles diheds improps nonb ljedit where
    b: "write_all (bond_line_out db) (unique_by_id [] (bond_types db)) = Inr bonds" and
    a: "write_all (angle_line_out db) (unique_by_id [] (angle_types db)) = Inr angles" and
    out: "out = (rstrip_crlf title @ [CHR 0x0A] @
               ''MASS'' @ [CHR 0x0A] @ concat (map mass_line_out (atom_types db)) @ [CHR 0x0A]) @
               ''BOND'' @ [CHR 0x0A] @ bonds @ [CHR 0x0A] @
               ''ANGLE'' @ [CHR 0x0A] @ angles @ [CHR 0x0A] @
               (''DIHE'' @ [CHR 0x0A] @ diheds @ [CHR 0x0A] @
               ''IMPROPER'' @ [CHR 0x0A] @ improps @ [CHR 0x0A] @
               ''NONB'' @ [CHR 0x0A] @ nonb @ [CHR 0x0A] @
               ljedit)"
    by (auto simp: write_db_def bind_Inr_iff split: if_splits)
  then show ?thesis by blast
qed


lemma bond_line_runs:
  assumes "rx_match bondre 4 line = Some g"
      and "float_of (g ! 2) = Inr k" and "float_of (g ! 3) = Inr eq"
  shows "\<exists>db'. process_bond_line db line = Inr db'"
  using assms by (simp add: process_bond_line_def Let_def alloc_def)

lemma angle_line_runs:
  assumes "rx_match anglere 5 line = Some g"
      and "float_of (g ! 3) = Inr k" and "float_of (g ! 4) = Inr eq"
  shows "\<exists>db'. process_angle_line db line = Inr db'"
  using assms by (simp add: process_angle_line_def Let_def alloc_def)

text \<open>
  C3. A bond line (an angle line) that matches its pattern and whose two numbers
  convert is processed without error; processing creates one new record object and
  makes the key as read and the reversed key refer to that same object: both keys
  hold the same reference, which did not exist before, and the records that existed
  are untouched. When the database is written, the BOND and ANGLE sections hold one
  line per entry of \<open>unique_by_id\<close> (the line is the record formatted with its key,
  as stated), and those entries are entries of the dictionary with pairwise different
  references that cover every reference of the dictionary: each record object is
  written exactly once, whatever the number of keys that refer to it, and two objects
  with equal values are both written.
\<close>

theorem shared_records_written_once:
  "(rx_match bondre 4 line = Some g \<and> float_of (g ! 2) = Inr k \<and> float_of (g ! 3) = Inr eq \<longrightarrow>
      (\<exists>db'. process_bond_line db line = Inr db')) \<and>
   (process_bond_line db line = Inr db' \<longrightarrow>
      (\<exists>g typ.
         rx_match bondre 4 line = Some g \<and>
         dict_get (bond_types db') (strip (g ! 0), strip (g ! 1)) = Some (length (bond_objs db)) \<and>
         dict_get (bond_types db') (strip (g ! 1), strip (g ! 0)) = Some (length (bond_objs db)) \<and>
         deref (bond_objs db) (length (bond_objs db)) = None \<and>
         deref (bond_objs db') (length (bond_objs db)) = Some typ \<and>
         float_of (g ! 2) = Inr (bond_k typ) \<and> float_of (g ! 3) = Inr (req typ) \<and>
         (\<forall>r t. deref (bond_objs db) r = Some t \<longrightarrow> deref (bond_objs db') r = Some t))) \<and>
   (rx_match anglere 5 aline = Some ag \<and> float_of (ag ! 3) = Inr ak \<and>
    float_of (ag ! 4) = Inr aeq \<longrightarrow>
      (\<exists>db'. process_angle_line db aline = Inr db')) \<and>
   (process_angle_line db aline = Inr adb' \<longrightarrow>
      (\<exists>g typ.
         rx_match anglere 5 aline = Some g \<and>
         dict_get (angle_types adb') (strip (g ! 0), strip (g ! 1), strip (g ! 2)) =
           Some (length (angle_objs db)) \<and>
         dict_get (angle_types adb') (strip (g ! 2), strip (g ! 1), strip (g ! 0)) =
           Some (length (angle_objs db)) \<and>
         deref (angle_objs db) (length (angle_objs db)) = None \<and>
         deref (angle_objs adb') (length (angle_objs db)) = Some typ \<and>
         float_of (g ! 3) = Inr (angle_k typ) \<and> float_of (g ! 4) = Inr (theteq typ) \<and>
         (\<forall>r t. deref (angle_objs db) r = Some t \<longrightarrow> deref (angle_objs adb') r = Some t))) \<and>
   (write_db repr db title style = Inr out \<longrightarrow>
      (\<exists>bls als pre post.
         list_all2 (\<lambda>e l. bond_line_out db e = Inr l) (unique_by_id [] (bond_types db)) bls \<and>
         list_all2 (\<lambda>e l. angle_line_out db e = Inr l) (unique_by_id [] (angle_types db)) als \<and>
         out = pre @ ''BOND'' @ [CHR 0x0A] @ concat bls @ [CHR 0x0A] @
               ''ANGLE'' @ [CHR 0x0A] @ concat als @ [CHR 0x0A] @ post)) \<and>
   (deref (bond_objs db) br = Some bt \<longrightarrow>
      bond_line_out db ((b1, b2), br) =
        Inr (ljust 2 b1 @ ''-'' @ ljust 2 b2 @ ''   '' @ fmt_f 8 3 (bond_k bt) @ ''  '' @
             fmt_f 6 3 (req bt) @ [CHR 0x0A])) \<and>
   (deref (angle_objs db) ar = Some atp \<longrightarrow>
      angle_line_out db ((a1, a2, a3), ar) =
        Inr (ljust 2 a1 @ ''-'' @ ljust 2 a2 @ ''-'' @ ljust 2 a3 @ ''   '' @
             fmt_f 8 3 (angle_k atp) @ ''  '' @ fmt_f 6 3 (theteq atp) @ [CHR 0x0A])) \<and>
   distinct (map snd (unique_by_id [] (bond_types db))) \<and>
   snd ` set (unique_by_id [] (bond_types db)) = snd ` set (bond_types db) \<and>
   set (unique_by_id [] (bond_types db)) \<subseteq> set (bond_types db) \<and>
   distinct (map snd (unique_by_id [] (angle_types db))) \<and>
   snd ` set (unique_by_id [] (angle_types db)) = snd ` set (angle_types db) \<and>
   set (unique_by_id [] (angle_types db)) \<subseteq> set (angle_types db)"
proof (intro conjI impI)
  assume "rx_match bondre 4 line = Some g \<and> float_of (g ! 2) = Inr k \<and>
          float_of (g ! 3) = Inr eq"
  then show "\<exists>db'. process_bond_line db line = Inr db'"
    using bond_line_runs [of line g k eq db] by simp
next
  assume "rx_match anglere 5 aline = Some ag \<and> float_of (ag ! 3) = Inr ak \<and>
          float_of (ag ! 4) = Inr aeq"
  then show "\<exists>db'. process_angle_line db aline = Inr db'"
    using angle_line_runs [of aline ag ak aeq db] by simp
next
  assume "process_bond_line db line = Inr db'"
  then show "\<exists>g typ.
         rx_match bondre 4 line = Some g \<and>
         dict_get (bond_types db') (strip (g ! 0), strip (g ! 1)) = Some (length (bond_objs db)) \<and>
         dict_get (bond_types db') (strip (g ! 1), strip (g ! 0)) = Some (length (bond_objs db)) \<and>
         deref (bond_objs db) (length (bond_objs db)) = None \<and>
         deref (bond_objs db') (length (bond_objs db)) = Some typ \<and>
         float_of (g ! 2) = Inr (bond_k typ) \<and> float_of (g ! 3) = Inr (req typ) \<and>
         (\<forall>r t. deref (bond_objs db) r = Some t \<longrightarrow> deref (bond_objs db') r = Some t)"
    by (rule bond_line_shared)
next
  assume "process_angle_line db aline = Inr adb'"
  then show "\<exists>g typ.
         rx_match anglere 5 aline = Some g \<and>
         dict_get (angle_types adb') (strip (g ! 0), strip (g ! 1), strip (g ! 2)) =
           Some (length (angle_objs db)) \<and>
         dict_get (angle_types adb') (strip (g ! 2), strip (g ! 1), strip (g ! 0)) =
           Some (length (angle_objs db)) \<and>
         deref (angle_objs db) (length (angle_objs db)) = None \<and>
         deref (angle_objs adb') (length (angle_objs db)) = Some typ \<and>
         float_of (g ! 3) = Inr (angle_k typ) \<and> float_of (g ! 4) = Inr (theteq typ) \<and>
         (\<forall>r t. deref (angle_objs db) r = Some t \<longrightarrow> deref (angle_objs adb') r = Some t)"
    by (rule angle_line_shared)
next
  assume "write_db repr db title style = Inr out"
  from write_db_sections [OF this] obtain bonds angles pre post where
    b: "write_all (bond_line_out db) (unique_by_id [] (bond_types db)) = Inr bonds" and
    a: "write_all (angle_line_out db) (unique_by_id [] (angle_types db)) = Inr angles" and
    out: "out = pre @ ''BOND'' @ [CHR 0x0A] @ bonds @ [CHR 0x0A] @
                ''ANGLE'' @ [CHR 0x0A] @ angles @ [CHR 0x0A] @ post"
    by blast
  from write_all_lines [OF b] obtain bls where
    bls: "list_all2 (\<lambda>e l. bond_line_out db e = Inr l) (unique_by_id [] (bond_types db)) bls"
         "bonds = concat bls" by blast
  from write_all_lines [OF a] obtain als where
    als: "list_all2 (\<lambda>e l. angle_line_out db e = Inr l) (unique_by_id [] (angle_types db)) als"
         "angles = concat als" by blast
  from bls als out show "\<exists>bls als pre post.
         list_all2 (\<lambda>e l. bond_line_out db e = Inr l) (unique_by_id [] (bond_types db)) bls \<and>
         list_all2 (\<lambda>e l. angle_line_out db e = Inr l) (unique_by_id [] (angle_types db)) als \<and>
         out = pre @ ''BOND'' @ [CHR 0x0A] @ concat bls @ [CHR 0x0A] @
               ''ANGLE'' @ [CHR 0x0A] @ concat als @ [CHR 0x0A] @ post"
    by blast
next
  assume "deref (bond_objs db) br = Some bt"
  then show "bond_line_out db ((b1, b2), br) =
        Inr (ljust 2 b1 @ ''-'' @ ljust 2 b2 @ ''   '' @ fmt_f 8 3 (bond_k bt) @ ''  '' @
             fmt_f 6 3 (req bt) @ [CHR 0x0A])"
    by (simp add: bond_line_out_def obj_def bind_def)
next
  assume "deref (angle_objs db) ar = Some atp"
  then show "angle_line_out db ((a1, a2, a3), ar) =
        Inr (ljust 2 a1 @ ''-'' @ ljust 2 a2 @ ''-'' @ ljust 2 a3 @ ''   '' @
             fmt_f 8 3 (angle_k atp) @ ''  '' @ fmt_f 6 3 (theteq atp) @ [CHR 0x0A])"
    by (simp add: angle_line_out_def obj_def bind_def)
qed (simp_all add: unique_by_id_distinct unique_by_id_subset unique_by_id_refs
       del: set_map)

lemma bond_match_CTHC:
  "rx_match bondre 4 ''CT-HC  340.0    1.090       changed from 331 bsd on NMA nmodes'' =
     Some [''CT'', ''HC'', ''340.0'', ''1.090'']"
  by code_simp

lemma bond_run_CTHC:
  "process_bond_line empty_db ''CT-HC  340.0    1.090       changed from 331 bsd on NMA nmodes'' =
     Inr (empty_db\<lparr>bond_objs := [\<lparr>bond_k = Fin 340, req = Fin 1.09\<rparr>],
                    bond_types := [((''CT'', ''HC''), 0), ((''HC'', ''CT''), 0)]\<rparr>)"
  by (simp add: process_bond_line_def bond_match_CTHC str_defs float_of_def py_float_defs
        alloc_def empty_db_def Let_def)

lemma angle_match_CTCTHC:
  "rx_match anglere 5 ''CT-CT-HC    50.0      109.50    changed based on NMA nmodes'' =
     Some [''CT'', ''CT'', ''HC'', ''50.0'', ''109.50'']"
  by code_simp

lemma angle_match_CTCTOH:
  "rx_match anglere 5 ''CT-CT-OH    50.0      109.50'' =
     Some [''CT'', ''CT'', ''OH'', ''50.0'', ''109.50'']"
  by code_simp

lemma angle_run_CTCTHC:
  "process_angle_line
     (empty_db\<lparr>bond_objs := [\<lparr>bond_k = Fin 340, req = Fin 1.09\<rparr>],
               bond_types := [((''CT'', ''HC''), 0), ((''HC'', ''CT''), 0)]\<rparr>)
     ''CT-CT-HC    50.0      109.50    changed based on NMA nmodes'' =
   Inr (empty_db\<lparr>bond_objs := [\<lparr>bond_k = Fin 340, req = Fin 1.09\<rparr>],
                  bond_types := [((''CT'', ''HC''), 0), ((''HC'', ''CT''), 0)],
                  angle_objs := [\<lparr>angle_k = Fin 50, theteq = Fin 109.5\<rparr>],
                  angle_types := [((''CT'', ''CT'', ''HC''), 0), ((''HC'', ''CT'', ''CT''), 0)]\<rparr>)"
  by (simp add: process_angle_line_def angle_match_CTCTHC str_defs float_of_def py_float_defs
        alloc_def empty_db_def Let_def)

lemma angle_run_CTCTOH:
  "process_angle_line
     (empty_db\<lparr>bond_objs := [\<lparr>bond_k = Fin 340, req = Fin 1.09\<rparr>],
               bond_types := [((''CT'', ''HC''), 0), ((''HC'', ''CT''), 0)],
               angle_objs := [\<lparr>angle_k = Fin 50, theteq = Fin 109.5\<rparr>],
               angle_types := [((''CT'', ''CT'', ''HC''), 0), ((''HC'', ''CT'', ''CT''), 0)]\<rparr>)
     ''CT-CT-OH    50.0      109.50'' =
   Inr (empty_db\<lparr>bond_objs := [\<lparr>bond_k = Fin 340, req = Fin 1.09\<rparr>],
                  bond_types := [((''CT'', ''HC''), 0), ((''HC'', ''CT''), 0)],
                  angle_objs := [\<lparr>angle_k = Fin 50, theteq = Fin 109.5\<rparr>,
                                 \<lparr>angle_k = Fin 50, theteq = Fin 109.5\<rparr>],
                  angle_types := [((''CT'', ''CT'', ''HC''), 0), ((''HC'', ''CT'', ''CT''), 0),
                                  ((''CT'', ''CT'', ''OH''), 1), ((''OH'', ''CT'', ''CT''), 1)]\<rparr>)"
  by (simp add: process_angle_line_def angle_match_CTCTOH str_defs float_of_def py_float_defs
        alloc_def empty_db_def Let_def)

lemma write_CTHC:
  "write_db repr
     (empty_db\<lparr>bond_objs := [\<lparr>bond_k = Fin 340, req = Fin 1.09\<rparr>],
               bond_types := [((''CT'', ''HC''), 0), ((''HC'', ''CT''), 0)],
               angle_objs := [\<lparr>angle_k = Fin 50, theteq = Fin 109.5\<rparr>,
                              \<lparr>angle_k = Fin 50, theteq = Fin 109.5\<rparr>],
               angle_types := [((''CT'', ''CT'', ''HC''), 0), ((''HC'', ''CT'', ''CT''), 0),
                               ((''CT'', ''CT'', ''OH''), 1), ((''OH'', ''CT'', ''CT''), 1)]\<rparr>)
     ''Created by ParmEd'' ''frcmod'' =
   Inr (''Created by ParmEd'' @ [CHR 0x0A] @ ''MASS'' @ [CHR 0x0A] @ [CHR 0x0A] @
        ''BOND'' @ [CHR 0x0A] @ ''CT-HC    340.000   1.090'' @ [CHR 0x0A] @ [CHR 0x0A] @
        ''ANGLE'' @ [CHR 0x0A] @ ''CT-CT-HC     50.000  109.500'' @ [CHR 0x0A] @
        ''CT-CT-OH     50.000  109.500'' @ [CHR 0x0A] @ [CHR 0x0A] @
        ''DIHE'' @ [CHR 0x0A] @ [CHR 0x0A] @
        ''IMPROPER'' @ [CHR 0x0A] @ [CHR 0x0A] @ ''NONB'' @ [CHR 0x0A] @ [CHR 0x0A])"
  by (simp add: write_db_def bind_def bond_line_out_def angle_line_out_def obj_def deref_def
        rstrip_crlf_def empty_db_def fmt_eval)

text \<open>A bond line and an angle line of \<^verbatim>\<open>parm10.dat\<close>, and a second angle line with
  the same two numbers: each line is processed, both keys of each line refer to the
  one object it created, and the writer emits one BOND line and two ANGLE lines, one
  for each of the two angle objects of equal value.\<close>

theorem shared_records_written_once_witness:
  "process_bond_line empty_db
     ''CT-HC  340.0    1.090       changed from 331 bsd on NMA nmodes'' =
     Inr (empty_db\<lparr>bond_objs := [\<lparr>bond_k = Fin 340, req = Fin 1.09\<rparr>],
                    bond_types := [((''CT'', ''HC''), 0), ((''HC'', ''CT''), 0)]\<rparr>) \<and>
   process_angle_line
     (empty_db\<lparr>bond_objs := [\<lparr>bond_k = Fin 340, req = Fin 1.09\<rparr>],
               bond_types := [((''CT'', ''HC''), 0), ((''HC'', ''CT''), 0)]\<rparr>)
     ''CT-CT-HC    50.0      109.50    changed based on NMA nmodes'' =
     Inr (empty_db\<lparr>bond_objs := [\<lparr>bond_k = Fin 340, req = Fin 1.09\<rparr>],
                    bond_types := [((''CT'', ''HC''), 0), ((''HC'', ''CT''), 0)],
                    angle_objs := [\<lparr>angle_k = Fin 50, theteq = Fin 109.5\<rparr>],
                    angle_types := [((''CT'', ''CT'', ''HC''), 0),
                                    ((''HC'', ''CT'', ''CT''), 0)]\<rparr>) \<and>
   (\<exists>db3.
      process_angle_line
        (empty_db\<lparr>bond_objs := [\<lparr>bond_k = Fin 340, req = Fin 1.09\<rparr>],
                  bond_types := [((''CT'', ''HC''), 0), ((''HC'', ''CT''), 0)],
                  angle_objs := [\<lparr>angle_k = Fin 50, theteq = Fin 109.5\<rparr>],
                  angle_types := [((''CT'', ''CT'', ''HC''), 0),
                                  ((''HC'', ''CT'', ''CT''), 0)]\<rparr>)
        ''CT-CT-OH    50.0      109.50'' = Inr db3 \<and>
      db3 = empty_db\<lparr>bond_objs := [\<lparr>bond_k = Fin 340, req = Fin 1.09\<rparr>],
                  bond_types := [((''CT'', ''HC''), 0), ((''HC'', ''CT''), 0)],
                  angle_objs := [\<lparr>angle_k = Fin 50, theteq = Fin 109.5\<rparr>,
                                 \<lparr>angle_k = Fin 50, theteq = Fin 109.5\<rparr>],
                  angle_types := [((''CT'', ''CT'', ''HC''), 0), ((''HC'', ''CT'', ''CT''), 0),
                                  ((''CT'', ''CT'', ''OH''), 1),
                                  ((''OH'', ''CT'', ''CT''), 1)]\<rparr> \<and>
      dict_get (bond_types db3) (''CT'', ''HC'') = Some 0 \<and>
      dict_get (bond_types db3) (''HC'', ''CT'') = Some 0 \<and>
      dict_get (angle_types db3) (''CT'', ''CT'', ''HC'') = Some 0 \<and>
      dict_get (angle_types db3) (''HC'', ''CT'', ''CT'') = Some 0 \<and>
      dict_get (angle_types db3) (''CT'', ''CT'', ''OH'') = Some 1 \<and>
      dict_get (angle_types db3) (''OH'', ''CT'', ''CT'') = Some 1 \<and>
      deref (angle_objs db3) 0 = Some \<lparr>angle_k = Fin 50, theteq = Fin 109.5\<rparr> \<and>
      deref (angle_objs db3) 1 = Some \<lparr>angle_k = Fin 50, theteq = Fin 109.5\<rparr> \<and>
      unique_by_id [] (bond_types db3) = [((''CT'', ''HC''), 0)] \<and>
      unique_by_id [] (angle_types db3) =
        [((''CT'', ''CT'', ''HC''), 0), ((''CT'', ''CT'', ''OH''), 1)] \<and>
      bond_line_out db3 ((''CT'', ''HC''), 0) = Inr (''CT-HC    340.000   1.090'' @ [CHR 0x0A]) \<and>
      angle_line_out db3 ((''CT'', ''CT'', ''OH''), 1) =
        Inr (''CT-CT-OH     50.000  109.500'' @ [CHR 0x0A]) \<and>
      write_db (\<lambda>x. []) db3 ''Created by ParmEd'' ''frcmod'' =
        Inr (''Created by ParmEd'' @ [CHR 0x0A] @ ''MASS'' @ [CHR 0x0A] @ [CHR 0x0A] @
             ''BOND'' @ [CHR 0x0A] @ ''CT-HC    340.000   1.090'' @ [CHR 0x0A] @ [CHR 0x0A] @
             ''ANGLE'' @ [CHR 0x0A] @ ''CT-CT-HC     50.000  109.500'' @ [CHR 0x0A] @
             ''CT-CT-OH     50.000  109.500'' @ [CHR 0x0A] @ [CHR 0x0A] @
             ''DIHE'' @ [CHR 0x0A] @ [CHR 0x0A] @
             ''IMPROPER'' @ [CHR 0x0A] @ [CHR 0x0A] @ ''NONB'' @ [CHR 0x0A] @ [CHR 0x0A]))"
proof -
  let ?al = "''CT-CT-OH    50.0      109.50''"
  let ?db2 = "empty_db\<lparr>bond_objs := [\<lparr>bond_k = Fin 340, req = Fin 1.09\<rparr>],
                  bond_types := [((''CT'', ''HC''), 0), ((''HC'', ''CT''), 0)],
                  angle_objs := [\<lparr>angle_k = Fin 50, theteq = Fin 109.5\<rparr>],
                  angle_types := [((''CT'', ''CT'', ''HC''), 0),
                                  ((''HC'', ''CT'', ''CT''), 0)]\<rparr>"
  let ?db3 = "empty_db\<lparr>bond_objs := [\<lparr>bond_k = Fin 340, req = Fin 1.09\<rparr>],
                  bond_types := [((''CT'', ''HC''), 0), ((''HC'', ''CT''), 0)],
                  angle_objs := [\<lparr>angle_k = Fin 50, theteq = Fin 109.5\<rparr>,
                                 \<lparr>angle_k = Fin 50, theteq = Fin 109.5\<rparr>],
                  angle_types := [((''CT'', ''CT'', ''HC''), 0), ((''HC'', ''CT'', ''CT''), 0),
                                  ((''CT'', ''CT'', ''OH''), 1),
                                  ((''OH'', ''CT'', ''CT''), 1)]\<rparr>"
  have fl: "float_of ''50.0'' = Inr (Fin 50)" "float_of ''109.50'' = Inr (Fin 109.5)"
    by (simp_all add: float_of_def py_float_defs)
  note run = shared_records_written_once
    [where db = ?db2 and aline = ?al and ag = "[''CT'', ''CT'', ''OH'', ''50.0'', ''109.50'']"
       and ak = "Fin 50" and aeq = "Fin 109.5",
     THEN conjunct2, THEN conjunct2, THEN conjunct1, THEN mp]
  have "\<exists>db'. process_angle_line ?db2 ?al = Inr db'"
    by (rule run) (simp add: angle_match_CTCTOH fl)
  then obtain db3 where r3: "process_angle_line ?db2 ?al = Inr db3" ..
  from r3 [unfolded angle_run_CTCTOH] have db3: "db3 = ?db3"
    by simp
  note shared = shared_records_written_once
    [where db = ?db2 and aline = ?al and adb' = db3,
     THEN conjunct2, THEN conjunct2, THEN conjunct2, THEN conjunct1, THEN mp, OF r3]
  then obtain g tp where
    g: "rx_match anglere 5 ?al = Some g" and
    k1: "dict_get (angle_types db3) (strip (g ! 0), strip (g ! 1), strip (g ! 2)) =
           Some (length (angle_objs ?db2))" and
    k2: "dict_get (angle_types db3) (strip (g ! 2), strip (g ! 1), strip (g ! 0)) =
           Some (length (angle_objs ?db2))" and
    d: "deref (angle_objs db3) (length (angle_objs ?db2)) = Some tp" and
    f1: "float_of (g ! 3) = Inr (angle_k tp)" and
    f2: "float_of (g ! 4) = Inr (theteq tp)" and
    old: "\<forall>r t. deref (angle_objs ?db2) r = Some t \<longrightarrow> deref (angle_objs db3) r = Some t"
    by (elim exE conjE)
  from g have gv: "g = [''CT'', ''CT'', ''OH'', ''50.0'', ''109.50'']"
    by (simp add: angle_match_CTCTOH)
  from f1 f2 have tp: "tp = \<lparr>angle_k = Fin 50, theteq = Fin 109.5\<rparr>"
    unfolding gv by (cases tp) (simp add: fl)
  from k1 have a3: "dict_get (angle_types db3) (''CT'', ''CT'', ''OH'') = Some 1"
    unfolding gv by (simp add: str_defs empty_db_def)
  from k2 have a4: "dict_get (angle_types db3) (''OH'', ''CT'', ''CT'') = Some 1"
    unfolding gv by (simp add: str_defs empty_db_def)
  from d have o1: "deref (angle_objs db3) 1 = Some \<lparr>angle_k = Fin 50, theteq = Fin 109.5\<rparr>"
    unfolding tp by (simp add: empty_db_def)
  have "deref (angle_objs ?db2) 0 = Some \<lparr>angle_k = Fin 50, theteq = Fin 109.5\<rparr>"
    by (simp add: deref_def)
  with old have o0: "deref (angle_objs db3) 0 = Some \<lparr>angle_k = Fin 50, theteq = Fin 109.5\<rparr>"
    by (elim allE impE) assumption
  note aline = shared_records_written_once
    [where db = db3 and ar = 1 and atp = "\<lparr>angle_k = Fin 50, theteq = Fin 109.5\<rparr>"
       and ?a1.0 = "''CT''" and ?a2.0 = "''CT''" and ?a3.0 = "''OH''",
     THEN conjunct2, THEN conjunct2, THEN conjunct2, THEN conjunct2, THEN conjunct2,
     THEN conjunct2, THEN conjunct1, THEN mp, OF o1]
  then have al: "angle_line_out db3 ((''CT'', ''CT'', ''OH''), 1) =
        Inr (''CT-CT-OH     50.000  109.500'' @ [CHR 0x0A])"
    by (simp add: fmt_eval)
  have b1: "dict_get (bond_types db3) (''CT'', ''HC'') = Some 0"
    and b2: "dict_get (bond_types db3) (''HC'', ''CT'') = Some 0"
    and a1: "dict_get (angle_types db3) (''CT'', ''CT'', ''HC'') = Some 0"
    and a2: "dict_get (angle_types db3) (''HC'', ''CT'', ''CT'') = Some 0"
    and ub: "unique_by_id [] (bond_types db3) = [((''CT'', ''HC''), 0)]"
    and ua: "unique_by_id [] (angle_types db3) =
        [((''CT'', ''CT'', ''HC''), 0), ((''CT'', ''CT'', ''OH''), 1)]"
    and bl: "bond_line_out db3 ((''CT'', ''HC''), 0) =
        Inr (''CT-HC    340.000   1.090'' @ [CHR 0x0A])"
    unfolding db3
    by (simp_all add: dict_get_def bond_line_out_def obj_def deref_def bind_def fmt_eval)
  have w: "write_db (\<lambda>x. []) db3 ''Created by ParmEd'' ''frcmod'' =
        Inr (''Created by ParmEd'' @ [CHR 0x0A] @ ''MASS'' @ [CHR 0x0A] @ [CHR 0x0A] @
             ''BOND'' @ [CHR 0x0A] @ ''CT-HC    340.000   1.090'' @ [CHR 0x0A] @ [CHR 0x0A] @
             ''ANGLE'' @ [CHR 0x0A] @ ''CT-CT-HC     50.000  109.500'' @ [CHR 0x0A] @
             ''CT-CT-OH     50.000  109.500'' @ [CHR 0x0A] @ [CHR 0x0A] @
             ''DIHE'' @ [CHR 0x0A] @ [CHR 0x0A] @
             ''IMPROPER'' @ [CHR 0x0A] @ [CHR 0x0A] @ ''NONB'' @ [CHR 0x0A] @ [CHR 0x0A])"
    unfolding db3 by (rule write_CTHC)
  have ex: "\<exists>db3.
      process_angle_line ?db2 ?al = Inr db3 \<and>
      db3 = ?db3 \<and>
      dict_get (bond_types db3) (''CT'', ''HC'') = Some 0 \<and>
      dict_get (bond_types db3) (''HC'', ''CT'') = Some 0 \<and>
      dict_get (angle_types db3) (''CT'', ''CT'', ''HC'') = Some 0 \<and>
      dict_get (angle_types db3) (''HC'', ''CT'', ''CT'') = Some 0 \<and>
      dict_get (angle_types db3) (''CT'', ''CT'', ''OH'') = Some 1 \<and>
      dict_get (angle_types db3) (''OH'', ''CT'', ''CT'') = Some 1 \<and>
      deref (angle_objs db3) 0 = Some \<lparr>angle_k = Fin 50, theteq = Fin 109.5\<rparr> \<and>
      deref (angle_objs db3) 1 = Some \<lparr>angle_k = Fin 50, theteq = Fin 109.5\<rparr> \<and>
      unique_by_id [] (bond_types db3) = [((''CT'', ''HC''), 0)] \<and>
      unique_by_id [] (angle_types db3) =
        [((''CT'', ''CT'', ''HC''), 0), ((''CT'', ''CT'', ''OH''), 1)] \<and>
      bond_line_out db3 ((''CT'', ''HC''), 0) = Inr (''CT-HC    340.000   1.090'' @ [CHR 0x0A]) \<and>
      angle_line_out db3 ((''CT'', ''CT'', ''OH''), 1) =
        Inr (''CT-CT-OH     50.000  109.500'' @ [CHR 0x0A]) \<and>
      write_db (\<lambda>x. []) db3 ''Created by ParmEd'' ''frcmod'' =
        Inr (''Created by ParmEd'' @ [CHR 0x0A] @ ''MASS'' @ [CHR 0x0A] @ [CHR 0x0A] @
             ''BOND'' @ [CHR 0x0A] @ ''CT-HC    340.000   1.090'' @ [CHR 0x0A] @ [CHR 0x0A] @
             ''ANGLE'' @ [CHR 0x0A] @ ''CT-CT-HC     50.000  109.500'' @ [CHR 0x0A] @
             ''CT-CT-OH     50.000  109.500'' @ [CHR 0x0A] @ [CHR 0x0A] @
             ''DIHE'' @ [CHR 0x0A] @ [CHR 0x0A] @
             ''IMPROPER'' @ [CHR 0x0A] @ [CHR 0x0A] @ ''NONB'' @ [CHR 0x0A] @ [CHR 0x0A])"
    apply (rule exI [of _ db3])
    using r3 db3 b1 b2 a1 a2 a3 a4 o0 o1 ub ua bl al w by (intro conjI)
  from bond_run_CTHC angle_run_CTCTHC ex show ?thesis
    by (intro conjI)
qed
subsection \<open>Dihedral lines\<close>

lemma dihedral_head_rkey:
  "dihedral_head db fin lk line = Inr (key, rkey, dv, k, phi, pr, db1) \<Longrightarrow> rkey = reversed4 key"
  by (auto simp: dihedral_head_def Let_def reversed4_def split: option.splits if_splits)

lemma dihedral_head_db:
  "dihedral_head db fin lk line = Inr (key, rkey, dv, k, phi, pr, db1) \<Longrightarrow>
     dihedral_types db1 = dihedral_types db \<and> dihedral_objs db1 = dihedral_objs db"
  by (auto simp: dihedral_head_def Let_def warn_def split: option.splits if_splits)

lemma dihedral_head_continuation:
  "dihedral_head db fin lk line = Inr (key, rkey, dv, k, phi, pr, db1) \<Longrightarrow>
     rx_match dihedre 8 line = None \<Longrightarrow> lk = Some key \<and> fin key = Some False \<and> db1 = db"
  by (auto simp: dihedral_head_def Let_def fd_get_def split: option.splits if_splits)

lemma dihedral_run:
  assumes run: "process_dihedral_line db fin lk line = Inr (db', fin', ret)"
  shows "\<exists>key rkey dv k phi pr db1 p typ.
           dihedral_head db fin lk line = Inr (key, rkey, dv, k, phi, pr, db1) \<and>
           float_of pr = Inr p \<and> per typ = pf_abs p \<and>
           (if fd_get fin key then db' = replace_terms db1 key rkey typ
            else append_term db1 key typ = Inr db') \<and>
           fin' = fin(key \<mapsto> pf_ge p (Fin 0), rkey \<mapsto> pf_ge p (Fin 0)) \<and>
           ret = (if pf_less p (Fin 0) then Some key else None)"
proof -
  from run obtain h where h: "dihedral_head db fin lk line = Inr h"
    unfolding process_dihedral_line_def by (cases "dihedral_head db fin lk line") (simp_all add: bind_def)
  obtain key rkey dv k phi pr db1 where hv: "h = (key, rkey, dv, k, phi, pr, db1)"
    by (cases h)
  from run h hv obtain scees scnbs p kf df pk ph db2 where
    p: "float_of pr = Inr p" and
    db2: "(if fd_get fin key
           then Inr (replace_terms db1 key rkey
                  \<lparr>phi_k = pk, per = pf_abs p, phase = ph,
                   scee = Some (hd (if scees = [] then [Fin 1.2] else scees)),
                   scnb = Some (hd (if scnbs = [] then [Fin 2.0] else scnbs))\<rparr>)
           else append_term db1 key
                  \<lparr>phi_k = pk, per = pf_abs p, phase = ph,
                   scee = Some (hd (if scees = [] then [Fin 1.2] else scees)),
                   scnb = Some (hd (if scnbs = [] then [Fin 2.0] else scnbs))\<rparr>) =
          (Inr db2 :: py_error + param_db)" and
    res: "(db', fin', ret) =
            (db2, fin(key \<mapsto> pf_ge p (Fin 0), rkey \<mapsto> pf_ge p (Fin 0)),
             if pf_less p (Fin 0) then Some key else None)"
    unfolding process_dihedral_line_def
    by (auto simp: bind_Inr_iff Let_def simp del: fun_upd_apply)
  let ?tm = "\<lparr>phi_k = pk, per = pf_abs p, phase = ph,
                   scee = Some (hd (if scees = [] then [Fin 1.2] else scees)),
                   scnb = Some (hd (if scnbs = [] then [Fin 2.0] else scnbs))\<rparr>"
  have a: "per ?tm = pf_abs p" by simp
  have b: "if fd_get fin key then db' = replace_terms db1 key rkey ?tm
           else append_term db1 key ?tm = Inr db'"
    using db2 res by (cases "fd_get fin key") simp_all
  from res have c: "fin' = fin(key \<mapsto> pf_ge p (Fin 0), rkey \<mapsto> pf_ge p (Fin 0))"
    and d: "ret = (if pf_less p (Fin 0) then Some key else None)" by simp_all
  from h hv p a b c d show ?thesis by blast
qed


lemma reversed4_invol [simp]: "reversed4 (reversed4 k) = k"
  by (cases k) (simp add: reversed4_def)

lemma pf_less_not_ge: "pf_less p (Fin 0) \<Longrightarrow> \<not> pf_ge p (Fin 0)"
  by (cases p) (auto simp: pf_ge_def)

lemma pf_ge_not_less: "pf_ge p (Fin 0) \<Longrightarrow> \<not> pf_less p (Fin 0)"
  by (cases p) (auto simp: pf_ge_def)

lemma dihedral_step:
  assumes run: "process_dihedral_line db fin lk line = Inr (db', fin', ret)"
  shows "\<exists>key p typ.
           dihedral_key_per db fin lk line = Some (key, p) \<and> per typ = pf_abs p \<and>
           (rx_match dihedre 8 line = None \<longrightarrow> lk = Some key \<and> fin key = Some False) \<and>
           (if fd_get fin key
            then dihedral_types db' =
                   dict_set (dict_set (dihedral_types db) key (length (dihedral_objs db)))
                     (reversed4 key) (length (dihedral_objs db)) \<and>
                 dihedral_objs db' = dihedral_objs db @ [TypeList [typ]]
            else (\<exists>r ts. dict_get (dihedral_types db) key = Some r \<and>
                    deref (dihedral_objs db) r = Some (TypeList ts) \<and>
                    dihedral_types db' = dihedral_types db \<and>
                    dihedral_objs db' = (dihedral_objs db)[r := TypeList (ts @ [typ])])) \<and>
           fin' = fin(key \<mapsto> pf_ge p (Fin 0), reversed4 key \<mapsto> pf_ge p (Fin 0)) \<and>
           ret = (if pf_less p (Fin 0) then Some key else None)"
proof -
  from dihedral_run [OF run] obtain key rkey dv k phi pr db1 p tm where
    h: "dihedral_head db fin lk line = Inr (key, rkey, dv, k, phi, pr, db1)" and
    p: "float_of pr = Inr p" and pt: "per tm = pf_abs p" and
    upd: "if fd_get fin key then db' = replace_terms db1 key rkey tm
          else append_term db1 key tm = Inr db'" and
    fin': "fin' = fin(key \<mapsto> pf_ge p (Fin 0), rkey \<mapsto> pf_ge p (Fin 0))" and
    ret: "ret = (if pf_less p (Fin 0) then Some key else None)"
    by blast
  note rk = dihedral_head_rkey [OF h]
  note same = dihedral_head_db [OF h]
  from p have pf: "py_float pr = Some p"
    by (auto simp: float_of_def split: option.splits)
  have kp: "dihedral_key_per db fin lk line = Some (key, p)"
    by (simp add: dihedral_key_per_def h pf)
  have cont: "rx_match dihedre 8 line = None \<longrightarrow> lk = Some key \<and> fin key = Some False"
    using dihedral_head_continuation [OF h] by blast
  have body: "if fd_get fin key
            then dihedral_types db' =
                   dict_set (dict_set (dihedral_types db) key (length (dihedral_objs db)))
                     (reversed4 key) (length (dihedral_objs db)) \<and>
                 dihedral_objs db' = dihedral_objs db @ [TypeList [tm]]
            else (\<exists>r ts. dict_get (dihedral_types db) key = Some r \<and>
                    deref (dihedral_objs db) r = Some (TypeList ts) \<and>
                    dihedral_types db' = dihedral_types db \<and>
                    dihedral_objs db' = (dihedral_objs db)[r := TypeList (ts @ [tm])])"
  proof (cases "fd_get fin key")
    case True
    with upd have "db' = replace_terms db1 key rkey tm" by simp
    then show ?thesis using True same rk
      by (simp add: replace_terms_def alloc_def)
  next
    case False
    with upd have ap: "append_term db1 key tm = Inr db'" by simp
    then obtain r ts where
      "dict_get (dihedral_types db1) key = Some r"
      "deref (dihedral_objs db1) r = Some (TypeList ts)"
      "db' = db1\<lparr>dihedral_objs := (dihedral_objs db1)[r := TypeList (ts @ [tm])]\<rparr>"
      by (auto simp: append_term_def split: option.splits dihedral_obj.splits)
    then show ?thesis using False same by auto
  qed
  from fin' rk have fin'': "fin' = fin(key \<mapsto> pf_ge p (Fin 0), reversed4 key \<mapsto> pf_ge p (Fin 0))"
    by simp
  show ?thesis
    apply (rule exI [of _ key], rule exI [of _ p], rule exI [of _ tm])
    using kp pt cont body fin'' ret by (intro conjI)
qed


lemma fd_get_upd:
  "fd_get (fin(k \<mapsto> b, reversed4 k \<mapsto> b)) k = b"
  "fd_get (fin(k \<mapsto> b, reversed4 k \<mapsto> b)) (reversed4 k) = b"
  by (simp_all add: fd_get_def)

text \<open>One more term for a key that awaits terms, when the key and its reverse refer
  to the list object \<open>n\<close>.\<close>

lemma dihedral_append_shared:
  assumes run: "process_dihedral_line db fin lk line = Inr (db', fin', ret)"
      and kp: "dihedral_key_per db fin lk line = Some (key, p)"
      and key: "key = K \<or> key = reversed4 K"
      and open_K: "\<not> fd_get fin K" "\<not> fd_get fin (reversed4 K)"
      and refs: "dict_get (dihedral_types db) K = Some n"
                "dict_get (dihedral_types db) (reversed4 K) = Some n"
      and terms: "deref (dihedral_objs db) n = Some (TypeList ts)"
  shows "\<exists>tm. per tm = pf_abs p \<and>
           dict_get (dihedral_types db') K = Some n \<and>
           dict_get (dihedral_types db') (reversed4 K) = Some n \<and>
           deref (dihedral_objs db') n = Some (TypeList (ts @ [tm])) \<and>
           fd_get fin' K = pf_ge p (Fin 0) \<and> fd_get fin' (reversed4 K) = pf_ge p (Fin 0) \<and>
           ret = (if pf_less p (Fin 0) then Some key else None)"
proof -
  from dihedral_step [OF run] obtain key' p' tm where
    kp': "dihedral_key_per db fin lk line = Some (key', p')" and
    pt: "per tm = pf_abs p'" and
    body: "if fd_get fin key'
            then dihedral_types db' =
                   dict_set (dict_set (dihedral_types db) key' (length (dihedral_objs db)))
                     (reversed4 key') (length (dihedral_objs db)) \<and>
                 dihedral_objs db' = dihedral_objs db @ [TypeList [tm]]
            else (\<exists>r ts. dict_get (dihedral_types db) key' = Some r \<and>
                    deref (dihedral_objs db) r = Some (TypeList ts) \<and>
                    dihedral_types db' = dihedral_types db \<and>
                    dihedral_objs db' = (dihedral_objs db)[r := TypeList (ts @ [tm])])" and
    fin': "fin' = fin(key' \<mapsto> pf_ge p' (Fin 0), reversed4 key' \<mapsto> pf_ge p' (Fin 0))" and
    ret: "ret = (if pf_less p' (Fin 0) then Some key' else None)"
    by (elim exE conjE)
  from kp kp' have eq: "key' = key" "p' = p" by simp_all
  from key open_K have nf: "\<not> fd_get fin key" by auto
  from key refs have rk: "dict_get (dihedral_types db) key = Some n" by auto
  from body nf obtain r ts' where
    r: "dict_get (dihedral_types db) key = Some r" and
    ts': "deref (dihedral_objs db) r = Some (TypeList ts')" and
    types: "dihedral_types db' = dihedral_types db" and
    objs: "dihedral_objs db' = (dihedral_objs db)[r := TypeList (ts' @ [tm])]"
    unfolding eq by auto
  from r rk have rn: "r = n" by simp
  from ts' terms have tsv: "ts' = ts" unfolding rn by simp
  from terms have nlen: "n < length (dihedral_objs db)"
    by (simp add: deref_def split: if_splits)
  have d: "deref (dihedral_objs db') n = Some (TypeList (ts @ [tm]))"
    unfolding objs rn tsv using nlen by (simp add: deref_def)
  have f: "fd_get fin' K = pf_ge p (Fin 0)" "fd_get fin' (reversed4 K) = pf_ge p (Fin 0)"
    using key unfolding fin' eq by (auto simp: fd_get_def)
  show ?thesis
    apply (rule exI [of _ tm])
    using pt refs d f ret unfolding eq types by (intro conjI)
qed

lemma dihedral_three_terms:
  assumes r1: "process_dihedral_line db0 fin0 lk0 l1 = Inr (db1, fin1, ret1)"
      and k1: "dihedral_key_per db0 fin0 lk0 l1 = Some (K, p1)"
      and f1: "fd_get fin0 K" and n1: "pf_less p1 (Fin 0)"
      and r2: "process_dihedral_line db1 fin1 ret1 l2 = Inr (db2, fin2, ret2)"
      and k2: "dihedral_key_per db1 fin1 ret1 l2 = Some (K2, p2)"
      and e2: "K2 = K \<or> K2 = reversed4 K" and n2: "pf_less p2 (Fin 0)"
      and r3: "process_dihedral_line db2 fin2 ret2 l3 = Inr (db3, fin3, ret3)"
      and k3: "dihedral_key_per db2 fin2 ret2 l3 = Some (K3, p3)"
      and e3: "K3 = K \<or> K3 = reversed4 K" and n3: "pf_ge p3 (Fin 0)"
  shows "\<exists>r t1 t2 t3.
           dict_get (dihedral_types db3) K = Some r \<and>
           dict_get (dihedral_types db3) (reversed4 K) = Some r \<and>
           deref (dihedral_objs db3) r = Some (TypeList [t1, t2, t3]) \<and>
           per t1 = pf_abs p1 \<and> per t2 = pf_abs p2 \<and> per t3 = pf_abs p3 \<and>
           ret1 = Some K \<and> ret2 = Some K2 \<and> ret3 = None"
proof -
  let ?n = "length (dihedral_objs db0)"
  from dihedral_step [OF r1] obtain key' p' t1 where
    kp': "dihedral_key_per db0 fin0 lk0 l1 = Some (key', p')" and
    pt1: "per t1 = pf_abs p'" and
    body: "if fd_get fin0 key'
            then dihedral_types db1 =
                   dict_set (dict_set (dihedral_types db0) key' (length (dihedral_objs db0)))
                     (reversed4 key') (length (dihedral_objs db0)) \<and>
                 dihedral_objs db1 = dihedral_objs db0 @ [TypeList [t1]]
            else (\<exists>r ts. dict_get (dihedral_types db0) key' = Some r \<and>
                    deref (dihedral_objs db0) r = Some (TypeList ts) \<and>
                    dihedral_types db1 = dihedral_types db0 \<and>
                    dihedral_objs db1 = (dihedral_objs db0)[r := TypeList (ts @ [t1])])" and
    fin1: "fin1 = fin0(key' \<mapsto> pf_ge p' (Fin 0), reversed4 key' \<mapsto> pf_ge p' (Fin 0))" and
    ret1: "ret1 = (if pf_less p' (Fin 0) then Some key' else None)"
    by (elim exE conjE)
  from k1 kp' have eq: "key' = K" "p' = p1" by simp_all
  from body f1 have
    types1: "dihedral_types db1 =
               dict_set (dict_set (dihedral_types db0) K ?n) (reversed4 K) ?n" and
    objs1: "dihedral_objs db1 = dihedral_objs db0 @ [TypeList [t1]]"
    unfolding eq by simp_all
  have a1: "dict_get (dihedral_types db1) K = Some ?n"
           "dict_get (dihedral_types db1) (reversed4 K) = Some ?n"
    unfolding types1 by (simp_all add: dict_get_def map_of_dict_set)
  have b1: "deref (dihedral_objs db1) ?n = Some (TypeList ([] @ [t1]))"
    unfolding objs1 by (simp add: deref_def)
  have c1: "\<not> fd_get fin1 K" "\<not> fd_get fin1 (reversed4 K)"
    unfolding fin1 eq using pf_less_not_ge [OF n1] by (simp_all add: fd_get_upd)
  have ret1v: "ret1 = Some K" using ret1 n1 unfolding eq by simp
  from dihedral_append_shared [OF r2 k2 e2 c1 a1 b1] obtain t2 where
    pt2: "per t2 = pf_abs p2" and
    a2: "dict_get (dihedral_types db2) K = Some ?n"
        "dict_get (dihedral_types db2) (reversed4 K) = Some ?n" and
    b2: "deref (dihedral_objs db2) ?n = Some (TypeList (([] @ [t1]) @ [t2]))" and
    c2: "fd_get fin2 K = pf_ge p2 (Fin 0)" "fd_get fin2 (reversed4 K) = pf_ge p2 (Fin 0)" and
    ret2: "ret2 = (if pf_less p2 (Fin 0) then Some K2 else None)"
    by (elim exE conjE)
  have c2': "\<not> fd_get fin2 K" "\<not> fd_get fin2 (reversed4 K)"
    unfolding c2 using pf_less_not_ge [OF n2] by simp_all
  have ret2v: "ret2 = Some K2" using ret2 n2 by simp
  from dihedral_append_shared [OF r3 k3 e3 c2' a2 b2] obtain t3 where
    pt3: "per t3 = pf_abs p3" and
    a3: "dict_get (dihedral_types db3) K = Some ?n"
        "dict_get (dihedral_types db3) (reversed4 K) = Some ?n" and
    b3: "deref (dihedral_objs db3) ?n = Some (TypeList ((([] @ [t1]) @ [t2]) @ [t3]))" and
    ret3: "ret3 = (if pf_less p3 (Fin 0) then Some K3 else None)"
    by (elim exE conjE)
  have ret3v: "ret3 = None" using ret3 pf_ge_not_less [OF n3] by simp
  from b3 have b3': "deref (dihedral_objs db3) ?n = Some (TypeList [t1, t2, t3])" by simp
  from pt1 have pt1': "per t1 = pf_abs p1" unfolding eq .
  show ?thesis
    apply (rule exI [of _ ?n], rule exI [of _ t1], rule exI [of _ t2], rule exI [of _ t3])
    using a3 b3' pt1' pt2 pt3 ret1v ret2v ret3v by (intro conjI)
qed

lemma dihedral_line_runs:
  assumes "rx_match dihedre 8 line = Some g"
      and "float_of (g ! 4) = Inr (Fin d)" and "d \<noteq> 0" and "float_of (g ! 5) = Inr kf"
      and "float_of (g ! 6) = Inr ph" and "float_of (g ! 7) = Inr pr"
      and "floats_of (map hd (rx_findall sceere 1 line)) = Inr sc"
      and "floats_of (map hd (rx_findall scnbre 1 line)) = Inr sn"
      and "fd_get fin (strip (g ! 0), strip (g ! 1), strip (g ! 2), strip (g ! 3))"
  shows "\<exists>db' fin' ret. process_dihedral_line db fin lk line = Inr (db', fin', ret)"
proof -
  from \<open>d \<noteq> 0\<close> obtain pk where pk: "pf_div kf (Fin d) = Inr pk"
    by (cases kf) simp_all
  show ?thesis
    unfolding process_dihedral_line_def dihedral_head_def
    using assms pk by (simp add: bind_def Let_def)
qed

text \<open>
  C1. A dihedral line that carries atom types for a key with no terms pending, whose
  numbers convert and whose divisor is not zero, is processed without error. Whenever
  a line is processed, the term it stores has the absolute value of the periodicity
  field; the key and its reverse are marked finished exactly when the periodicity is
  not negative, and the key is returned (to be continued) exactly when it is negative.
  A line without atom types is accepted only for the key that was returned and still
  awaits terms. A line for a finished key makes the key and its reverse refer to a
  new list object holding the one term; a line for a key awaiting terms appends its
  term to the list object the key refers to. Three lines for one key, the first two
  of negative and the third of non-negative periodicity, starting from a finished
  key, leave one list of three terms that the key and its reverse both refer to.
\<close>

theorem dihedral_multi_term:
  "(rx_match dihedre 8 line = Some g \<and>
    fd_get fin (strip (g ! 0), strip (g ! 1), strip (g ! 2), strip (g ! 3)) \<and>
    float_of (g ! 4) = Inr (Fin d) \<and> d \<noteq> 0 \<and> float_of (g ! 5) = Inr kf \<and>
    float_of (g ! 6) = Inr ph \<and> float_of (g ! 7) = Inr pr \<and>
    floats_of (map hd (rx_findall sceere 1 line)) = Inr sc \<and>
    floats_of (map hd (rx_findall scnbre 1 line)) = Inr sn \<longrightarrow>
      (\<exists>db' fin' ret. process_dihedral_line db fin lk line = Inr (db', fin', ret))) \<and>
   (process_dihedral_line db fin lk line = Inr (db', fin', ret) \<longrightarrow>
      (\<exists>key p typ.
         dihedral_key_per db fin lk line = Some (key, p) \<and> per typ = pf_abs p \<and>
         (rx_match dihedre 8 line = None \<longrightarrow> lk = Some key \<and> fin key = Some False) \<and>
         (if fd_get fin key
          then dihedral_types db' =
                 dict_set (dict_set (dihedral_types db) key (length (dihedral_objs db)))
                   (reversed4 key) (length (dihedral_objs db)) \<and>
               dihedral_objs db' = dihedral_objs db @ [TypeList [typ]]
          else (\<exists>r ts. dict_get (dihedral_types db) key = Some r \<and>
                  deref (dihedral_objs db) r = Some (TypeList ts) \<and>
                  dihedral_types db' = dihedral_types db \<and>
                  dihedral_objs db' = (dihedral_objs db)[r := TypeList (ts @ [typ])])) \<and>
         fin' = fin(key \<mapsto> pf_ge p (Fin 0), reversed4 key \<mapsto> pf_ge p (Fin 0)) \<and>
         ret = (if pf_less p (Fin 0) then Some key else None))) \<and>
   (process_dihedral_line dba fna lka la = Inr (dbb, fnb, reta) \<and>
    dihedral_key_per dba fna lka la = Some (K, pa) \<and> fd_get fna K \<and> pf_less pa (Fin 0) \<and>
    process_dihedral_line dbb fnb reta lb = Inr (dbc, fnc, retb) \<and>
    dihedral_key_per dbb fnb reta lb = Some (Kb, pb) \<and>
    (Kb = K \<or> Kb = reversed4 K) \<and> pf_less pb (Fin 0) \<and>
    process_dihedral_line dbc fnc retb lc = Inr (dbd, fnd, retc) \<and>
    dihedral_key_per dbc fnc retb lc = Some (Kc, pc) \<and>
    (Kc = K \<or> Kc = reversed4 K) \<and> pf_ge pc (Fin 0) \<longrightarrow>
      (\<exists>r ta tb tc.
         dict_get (dihedral_types dbd) K = Some r \<and>
         dict_get (dihedral_types dbd) (reversed4 K) = Some r \<and>
         deref (dihedral_objs dbd) r = Some (TypeList [ta, tb, tc]) \<and>
         per ta = pf_abs pa \<and> per tb = pf_abs pb \<and> per tc = pf_abs pc \<and>
         reta = Some K \<and> retb = Some Kb \<and> retc = None))"
proof (intro conjI impI)
  assume "rx_match dihedre 8 line = Some g \<and>
    fd_get fin (strip (g ! 0), strip (g ! 1), strip (g ! 2), strip (g ! 3)) \<and>
    float_of (g ! 4) = Inr (Fin d) \<and> d \<noteq> 0 \<and> float_of (g ! 5) = Inr kf \<and>
    float_of (g ! 6) = Inr ph \<and> float_of (g ! 7) = Inr pr \<and>
    floats_of (map hd (rx_findall sceere 1 line)) = Inr sc \<and>
    floats_of (map hd (rx_findall scnbre 1 line)) = Inr sn"
  then show "\<exists>db' fin' ret. process_dihedral_line db fin lk line = Inr (db', fin', ret)"
    by (elim conjE) (rule dihedral_line_runs)
next
  assume "process_dihedral_line db fin lk line = Inr (db', fin', ret)"
  then show "\<exists>key p typ.
         dihedral_key_per db fin lk line = Some (key, p) \<and> per typ = pf_abs p \<and>
         (rx_match dihedre 8 line = None \<longrightarrow> lk = Some key \<and> fin key = Some False) \<and>
         (if fd_get fin key
          then dihedral_types db' =
                 dict_set (dict_set (dihedral_types db) key (length (dihedral_objs db)))
                   (reversed4 key) (length (dihedral_objs db)) \<and>
               dihedral_objs db' = dihedral_objs db @ [TypeList [typ]]
          else (\<exists>r ts. dict_get (dihedral_types db) key = Some r \<and>
                  deref (dihedral_objs db) r = Some (TypeList ts) \<and>
                  dihedral_types db' = dihedral_types db \<and>
                  dihedral_objs db' = (dihedral_objs db)[r := TypeList (ts @ [typ])])) \<and>
         fin' = fin(key \<mapsto> pf_ge p (Fin 0), reversed4 key \<mapsto> pf_ge p (Fin 0)) \<and>
         ret = (if pf_less p (Fin 0) then Some key else None)"
    by (rule dihedral_step)
next
  assume "process_dihedral_line dba fna lka la = Inr (dbb, fnb, reta) \<and>
    dihedral_key_per dba fna lka la = Some (K, pa) \<and> fd_get fna K \<and> pf_less pa (Fin 0) \<and>
    process_dihedral_line dbb fnb reta lb = Inr (dbc, fnc, retb) \<and>
    dihedral_key_per dbb fnb reta lb = Some (Kb, pb) \<and>
    (Kb = K \<or> Kb = reversed4 K) \<and> pf_less pb (Fin 0) \<and>
    process_dihedral_line dbc fnc retb lc = Inr (dbd, fnd, retc) \<and>
    dihedral_key_per dbc fnc retb lc = Some (Kc, pc) \<and>
    (Kc = K \<or> Kc = reversed4 K) \<and> pf_ge pc (Fin 0)"
  then show "\<exists>r ta tb tc.
         dict_get (dihedral_types dbd) K = Some r \<and>
         dict_get (dihedral_types dbd) (reversed4 K) = Some r \<and>
         deref (dihedral_objs dbd) r = Some (TypeList [ta, tb, tc]) \<and>
         per ta = pf_abs pa \<and> per tb = pf_abs pb \<and> per tc = pf_abs pc \<and>
         reta = Some K \<and> retb = Some Kb \<and> retc = None"
    by (elim conjE) (rule dihedral_three_terms)
qed

lemma dihed_match_1:
  "rx_match dihedre 8 ''CT-CT-OS-CT   2    0.766         0.0            -3.    SCEE=1.5 SCNB=2.5'' =
     Some [''CT'', ''CT'', ''OS'', ''CT'', ''2'', ''0.766'', ''0.0'', ''-3.'']"
  "rx_findall sceere 1 ''CT-CT-OS-CT   2    0.766         0.0            -3.    SCEE=1.5 SCNB=2.5'' =
     [[''1.5'']]"
  "rx_findall scnbre 1 ''CT-CT-OS-CT   2    0.766         0.0            -3.    SCEE=1.5 SCNB=2.5'' =
     [[''2.5'']]"
  by code_simp+

lemma dihed_match_2:
  "rx_match dihedre 8 ''              1    0.1         180.0            -2.'' = None"
  "rx_match dihed2re 4 ''              1    0.1         180.0            -2.'' =
     Some [''1'', ''0.1'', ''180.0'', ''-2.'']"
  "rx_findall sceere 1 ''              1    0.1         180.0            -2.'' = []"
  "rx_findall scnbre 1 ''              1    0.1         180.0            -2.'' = []"
  by code_simp+

lemma dihed_match_3:
  "rx_match dihedre 8 ''CT-OS-CT-CT   4    1.0           0.0             1.'' =
     Some [''CT'', ''OS'', ''CT'', ''CT'', ''4'', ''1.0'', ''0.0'', ''1.'']"
  "rx_findall sceere 1 ''CT-OS-CT-CT   4    1.0           0.0             1.'' = []"
  "rx_findall scnbre 1 ''CT-OS-CT-CT   4    1.0           0.0             1.'' = []"
  by code_simp+

lemma dihed_match_4:
  "rx_match dihedre 8 ''CT-CT-OS-CT   1    0.5         180.0             2.'' =
     Some [''CT'', ''CT'', ''OS'', ''CT'', ''1'', ''0.5'', ''180.0'', ''2.'']"
  "rx_findall sceere 1 ''CT-CT-OS-CT   1    0.5         180.0             2.'' = []"
  "rx_findall scnbre 1 ''CT-CT-OS-CT   1    0.5         180.0             2.'' = []"
  by code_simp+

lemmas dihed_eval =
  process_dihedral_line_def dihedral_key_per_def dihedral_head_def bind_def Let_def float_of_def
  py_float_defs fd_get_def replace_terms_def append_term_def alloc_def dict_get_def deref_def
  empty_db_def pf_ge_def reversed4_def fun_eq_iff

lemma dihed_run_1:
  "process_dihedral_line empty_db Map.empty None
     ''CT-CT-OS-CT   2    0.766         0.0            -3.    SCEE=1.5 SCNB=2.5'' =
   Inr ((empty_db\<lparr>dihedral_objs := [TypeList [\<lparr>phi_k = Fin 0.383, per = Fin 3, phase = Fin 0, scee = Some (Fin 1.5), scnb = Some (Fin 2.5)\<rparr>]],
                dihedral_types := [((''CT'', ''CT'', ''OS'', ''CT''), 0),
                                    ((''CT'', ''OS'', ''CT'', ''CT''), 0)]\<rparr>),
        [(''CT'', ''CT'', ''OS'', ''CT'') \<mapsto> False, (''CT'', ''OS'', ''CT'', ''CT'') \<mapsto> False],
        Some (''CT'', ''CT'', ''OS'', ''CT''))"
  "dihedral_key_per empty_db Map.empty None
     ''CT-CT-OS-CT   2    0.766         0.0            -3.    SCEE=1.5 SCNB=2.5'' =
   Some ((''CT'', ''CT'', ''OS'', ''CT''), Fin (- 3))"
  by (simp_all add: dihed_match_1 [unfolded One_nat_def] dihed_eval)

lemma dihed_run_2:
  "process_dihedral_line
     (empty_db\<lparr>dihedral_objs := [TypeList [\<lparr>phi_k = Fin 0.383, per = Fin 3, phase = Fin 0, scee = Some (Fin 1.5), scnb = Some (Fin 2.5)\<rparr>]],
                dihedral_types := [((''CT'', ''CT'', ''OS'', ''CT''), 0),
                                    ((''CT'', ''OS'', ''CT'', ''CT''), 0)]\<rparr>)
     [(''CT'', ''CT'', ''OS'', ''CT'') \<mapsto> False, (''CT'', ''OS'', ''CT'', ''CT'') \<mapsto> False]
     (Some (''CT'', ''CT'', ''OS'', ''CT''))
     ''              1    0.1         180.0            -2.'' =
   Inr ((empty_db\<lparr>dihedral_objs := [TypeList [\<lparr>phi_k = Fin 0.383, per = Fin 3, phase = Fin 0, scee = Some (Fin 1.5), scnb = Some (Fin 2.5)\<rparr>,
                                         \<lparr>phi_k = Fin 0.1, per = Fin 2, phase = Fin 180, scee = Some (Fin 1.2), scnb = Some (Fin 2)\<rparr>]],
                dihedral_types := [((''CT'', ''CT'', ''OS'', ''CT''), 0),
                                    ((''CT'', ''OS'', ''CT'', ''CT''), 0)]\<rparr>),
        [(''CT'', ''CT'', ''OS'', ''CT'') \<mapsto> False, (''CT'', ''OS'', ''CT'', ''CT'') \<mapsto> False],
        Some (''CT'', ''CT'', ''OS'', ''CT''))"
  "dihedral_key_per
     (empty_db\<lparr>dihedral_objs := [TypeList [\<lparr>phi_k = Fin 0.383, per = Fin 3, phase = Fin 0, scee = Some (Fin 1.5), scnb = Some (Fin 2.5)\<rparr>]],
                dihedral_types := [((''CT'', ''CT'', ''OS'', ''CT''), 0),
                                    ((''CT'', ''OS'', ''CT'', ''CT''), 0)]\<rparr>)
     [(''CT'', ''CT'', ''OS'', ''CT'') \<mapsto> False, (''CT'', ''OS'', ''CT'', ''CT'') \<mapsto> False]
     (Some (''CT'', ''CT'', ''OS'', ''CT''))
     ''              1    0.1         180.0            -2.'' =
   Some ((''CT'', ''CT'', ''OS'', ''CT''), Fin (- 2))"
  by (simp_all add: dihed_match_2 [unfolded One_nat_def] dihed_eval)

lemma dihed_run_3:
  "process_dihedral_line
     (empty_db\<lparr>dihedral_objs := [TypeList [\<lparr>phi_k = Fin 0.383, per = Fin 3, phase = Fin 0, scee = Some (Fin 1.5), scnb = Some (Fin 2.5)\<rparr>,
                                         \<lparr>phi_k = Fin 0.1, per = Fin 2, phase = Fin 180, scee = Some (Fin 1.2), scnb = Some (Fin 2)\<rparr>]],
                dihedral_types := [((''CT'', ''CT'', ''OS'', ''CT''), 0),
                                    ((''CT'', ''OS'', ''CT'', ''CT''), 0)]\<rparr>)
     [(''CT'', ''CT'', ''OS'', ''CT'') \<mapsto> False, (''CT'', ''OS'', ''CT'', ''CT'') \<mapsto> False]
     (Some (''CT'', ''CT'', ''OS'', ''CT''))
     ''CT-OS-CT-CT   4    1.0           0.0             1.'' =
   Inr ((empty_db\<lparr>dihedral_objs := [TypeList [\<lparr>phi_k = Fin 0.383, per = Fin 3, phase = Fin 0, scee = Some (Fin 1.5), scnb = Some (Fin 2.5)\<rparr>,
                                         \<lparr>phi_k = Fin 0.1, per = Fin 2, phase = Fin 180, scee = Some (Fin 1.2), scnb = Some (Fin 2)\<rparr>,
                                         \<lparr>phi_k = Fin 0.25, per = Fin 1, phase = Fin 0, scee = Some (Fin 1.2), scnb = Some (Fin 2)\<rparr>]],
                dihedral_types := [((''CT'', ''CT'', ''OS'', ''CT''), 0),
                                    ((''CT'', ''OS'', ''CT'', ''CT''), 0)]\<rparr>),
        [(''CT'', ''CT'', ''OS'', ''CT'') \<mapsto> True, (''CT'', ''OS'', ''CT'', ''CT'') \<mapsto> True],
        None)"
  "dihedral_key_per
     (empty_db\<lparr>dihedral_objs := [TypeList [\<lparr>phi_k = Fin 0.383, per = Fin 3, phase = Fin 0, scee = Some (Fin 1.5), scnb = Some (Fin 2.5)\<rparr>,
                                         \<lparr>phi_k = Fin 0.1, per = Fin 2, phase = Fin 180, scee = Some (Fin 1.2), scnb = Some (Fin 2)\<rparr>]],
                dihedral_types := [((''CT'', ''CT'', ''OS'', ''CT''), 0),
                                    ((''CT'', ''OS'', ''CT'', ''CT''), 0)]\<rparr>)
     [(''CT'', ''CT'', ''OS'', ''CT'') \<mapsto> False, (''CT'', ''OS'', ''CT'', ''CT'') \<mapsto> False]
     (Some (''CT'', ''CT'', ''OS'', ''CT''))
     ''CT-OS-CT-CT   4    1.0           0.0             1.'' =
   Some ((''CT'', ''OS'', ''CT'', ''CT''), Fin 1)"
  by (simp_all add: dihed_match_3 [unfolded One_nat_def] dihed_eval)

lemma dihed_run_4:
  "process_dihedral_line
     (empty_db\<lparr>dihedral_objs := [TypeList [\<lparr>phi_k = Fin 0.383, per = Fin 3, phase = Fin 0, scee = Some (Fin 1.5), scnb = Some (Fin 2.5)\<rparr>,
                                         \<lparr>phi_k = Fin 0.1, per = Fin 2, phase = Fin 180, scee = Some (Fin 1.2), scnb = Some (Fin 2)\<rparr>,
                                         \<lparr>phi_k = Fin 0.25, per = Fin 1, phase = Fin 0, scee = Some (Fin 1.2), scnb = Some (Fin 2)\<rparr>]],
                dihedral_types := [((''CT'', ''CT'', ''OS'', ''CT''), 0),
                                    ((''CT'', ''OS'', ''CT'', ''CT''), 0)]\<rparr>)
     [(''CT'', ''CT'', ''OS'', ''CT'') \<mapsto> True, (''CT'', ''OS'', ''CT'', ''CT'') \<mapsto> True]
     None
     ''CT-CT-OS-CT   1    0.5         180.0             2.'' =
   Inr ((empty_db\<lparr>dihedral_objs := [TypeList [\<lparr>phi_k = Fin 0.383, per = Fin 3, phase = Fin 0, scee = Some (Fin 1.5), scnb = Some (Fin 2.5)\<rparr>,
                                         \<lparr>phi_k = Fin 0.1, per = Fin 2, phase = Fin 180, scee = Some (Fin 1.2), scnb = Some (Fin 2)\<rparr>,
                                         \<lparr>phi_k = Fin 0.25, per = Fin 1, phase = Fin 0, scee = Some (Fin 1.2), scnb = Some (Fin 2)\<rparr>],
                                   TypeList [\<lparr>phi_k = Fin 0.5, per = Fin 2, phase = Fin 180, scee = Some (Fin 1.2), scnb = Some (Fin 2)\<rparr>]],
                dihedral_types := [((''CT'', ''CT'', ''OS'', ''CT''), 1),
                                    ((''CT'', ''OS'', ''CT'', ''CT''), 1)]\<rparr>),
        [(''CT'', ''CT'', ''OS'', ''CT'') \<mapsto> True, (''CT'', ''OS'', ''CT'', ''CT'') \<mapsto> True],
        None)"
  by (simp add: dihed_match_4 [unfolded One_nat_def] dihed_eval)

text \<open>A torsion of three terms: a line of periodicity \<open>-3\<close> with a divisor and its own
  scaling factors, a line without atom types of periodicity \<open>-2\<close>, and a line of
  periodicity \<open>1\<close> written with the reversed key. The three terms end in the one list
  that both keys refer to. A fourth line for the key, now finished, replaces the list
  by a new one of one term.\<close>

theorem dihedral_multi_term_witness:
  "process_dihedral_line empty_db Map.empty None
     ''CT-CT-OS-CT   2    0.766         0.0            -3.    SCEE=1.5 SCNB=2.5'' =
   Inr ((empty_db\<lparr>dihedral_objs := [TypeList [\<lparr>phi_k = Fin 0.383, per = Fin 3, phase = Fin 0, scee = Some (Fin 1.5), scnb = Some (Fin 2.5)\<rparr>]],
                dihedral_types := [((''CT'', ''CT'', ''OS'', ''CT''), 0),
                                    ((''CT'', ''OS'', ''CT'', ''CT''), 0)]\<rparr>),
        [(''CT'', ''CT'', ''OS'', ''CT'') \<mapsto> False, (''CT'', ''OS'', ''CT'', ''CT'') \<mapsto> False],
        Some (''CT'', ''CT'', ''OS'', ''CT'')) \<and>
   process_dihedral_line
     (empty_db\<lparr>dihedral_objs := [TypeList [\<lparr>phi_k = Fin 0.383, per = Fin 3, phase = Fin 0, scee = Some (Fin 1.5), scnb = Some (Fin 2.5)\<rparr>]],
                dihedral_types := [((''CT'', ''CT'', ''OS'', ''CT''), 0),
                                    ((''CT'', ''OS'', ''CT'', ''CT''), 0)]\<rparr>)
     [(''CT'', ''CT'', ''OS'', ''CT'') \<mapsto> False, (''CT'', ''OS'', ''CT'', ''CT'') \<mapsto> False]
     (Some (''CT'', ''CT'', ''OS'', ''CT''))
     ''              1    0.1         180.0            -2.'' =
   Inr ((empty_db\<lparr>dihedral_objs := [TypeList [\<lparr>phi_k = Fin 0.383, per = Fin 3, phase = Fin 0, scee = Some (Fin 1.5), scnb = Some (Fin 2.5)\<rparr>,
                                         \<lparr>phi_k = Fin 0.1, per = Fin 2, phase = Fin 180, scee = Some (Fin 1.2), scnb = Some (Fin 2)\<rparr>]],
                dihedral_types := [((''CT'', ''CT'', ''OS'', ''CT''), 0),
                                    ((''CT'', ''OS'', ''CT'', ''CT''), 0)]\<rparr>),
        [(''CT'', ''CT'', ''OS'', ''CT'') \<mapsto> False, (''CT'', ''OS'', ''CT'', ''CT'') \<mapsto> False],
        Some (''CT'', ''CT'', ''OS'', ''CT'')) \<and>
   process_dihedral_line
     (empty_db\<lparr>dihedral_objs := [TypeList [\<lparr>phi_k = Fin 0.383, per = Fin 3, phase = Fin 0, scee = Some (Fin 1.5), scnb = Some (Fin 2.5)\<rparr>,
                                         \<lparr>phi_k = Fin 0.1, per = Fin 2, phase = Fin 180, scee = Some (Fin 1.2), scnb = Some (Fin 2)\<rparr>]],
                dihedral_types := [((''CT'', ''CT'', ''OS'', ''CT''), 0),
                                    ((''CT'', ''OS'', ''CT'', ''CT''), 0)]\<rparr>)
     [(''CT'', ''CT'', ''OS'', ''CT'') \<mapsto> False, (''CT'', ''OS'', ''CT'', ''CT'') \<mapsto> False]
     (Some (''CT'', ''CT'', ''OS'', ''CT''))
     ''CT-OS-CT-CT   4    1.0           0.0             1.'' =
   Inr ((empty_db\<lparr>dihedral_objs := [TypeList [\<lparr>phi_k = Fin 0.383, per = Fin 3, phase = Fin 0, scee = Some (Fin 1.5), scnb = Some (Fin 2.5)\<rparr>,
                                         \<lparr>phi_k = Fin 0.1, per = Fin 2, phase = Fin 180, scee = Some (Fin 1.2), scnb = Some (Fin 2)\<rparr>,
                                         \<lparr>phi_k = Fin 0.25, per = Fin 1, phase = Fin 0, scee = Some (Fin 1.2), scnb = Some (Fin 2)\<rparr>]],
                dihedral_types := [((''CT'', ''CT'', ''OS'', ''CT''), 0),
                                    ((''CT'', ''OS'', ''CT'', ''CT''), 0)]\<rparr>),
        [(''CT'', ''CT'', ''OS'', ''CT'') \<mapsto> True, (''CT'', ''OS'', ''CT'', ''CT'') \<mapsto> True],
        None) \<and>
   process_dihedral_line
     (empty_db\<lparr>dihedral_objs := [TypeList [\<lparr>phi_k = Fin 0.383, per = Fin 3, phase = Fin 0, scee = Some (Fin 1.5), scnb = Some (Fin 2.5)\<rparr>,
                                         \<lparr>phi_k = Fin 0.1, per = Fin 2, phase = Fin 180, scee = Some (Fin 1.2), scnb = Some (Fin 2)\<rparr>,
                                         \<lparr>phi_k = Fin 0.25, per = Fin 1, phase = Fin 0, scee = Some (Fin 1.2), scnb = Some (Fin 2)\<rparr>]],
                dihedral_types := [((''CT'', ''CT'', ''OS'', ''CT''), 0),
                                    ((''CT'', ''OS'', ''CT'', ''CT''), 0)]\<rparr>)
     [(''CT'', ''CT'', ''OS'', ''CT'') \<mapsto> True, (''CT'', ''OS'', ''CT'', ''CT'') \<mapsto> True]
     None
     ''CT-CT-OS-CT   1    0.5         180.0             2.'' =
   Inr ((empty_db\<lparr>dihedral_objs := [TypeList [\<lparr>phi_k = Fin 0.383, per = Fin 3, phase = Fin 0, scee = Some (Fin 1.5), scnb = Some (Fin 2.5)\<rparr>,
                                         \<lparr>phi_k = Fin 0.1, per = Fin 2, phase = Fin 180, scee = Some (Fin 1.2), scnb = Some (Fin 2)\<rparr>,
                                         \<lparr>phi_k = Fin 0.25, per = Fin 1, phase = Fin 0, scee = Some (Fin 1.2), scnb = Some (Fin 2)\<rparr>],
                                   TypeList [\<lparr>phi_k = Fin 0.5, per = Fin 2, phase = Fin 180, scee = Some (Fin 1.2), scnb = Some (Fin 2)\<rparr>]],
                dihedral_types := [((''CT'', ''CT'', ''OS'', ''CT''), 1),
                                    ((''CT'', ''OS'', ''CT'', ''CT''), 1)]\<rparr>),
        [(''CT'', ''CT'', ''OS'', ''CT'') \<mapsto> True, (''CT'', ''OS'', ''CT'', ''CT'') \<mapsto> True],
        None) \<and>
   (\<exists>r ta tb tc.
      dict_get (dihedral_types (empty_db\<lparr>dihedral_objs := [TypeList [\<lparr>phi_k = Fin 0.383, per = Fin 3, phase = Fin 0, scee = Some (Fin 1.5), scnb = Some (Fin 2.5)\<rparr>,
                                         \<lparr>phi_k = Fin 0.1, per = Fin 2, phase = Fin 180, scee = Some (Fin 1.2), scnb = Some (Fin 2)\<rparr>,
                                         \<lparr>phi_k = Fin 0.25, per = Fin 1, phase = Fin 0, scee = Some (Fin 1.2), scnb = Some (Fin 2)\<rparr>]],
                dihedral_types := [((''CT'', ''CT'', ''OS'', ''CT''), 0),
                                    ((''CT'', ''OS'', ''CT'', ''CT''), 0)]\<rparr>)) (''CT'', ''CT'', ''OS'', ''CT'') = Some r \<and>
      dict_get (dihedral_types (empty_db\<lparr>dihedral_objs := [TypeList [\<lparr>phi_k = Fin 0.383, per = Fin 3, phase = Fin 0, scee = Some (Fin 1.5), scnb = Some (Fin 2.5)\<rparr>,
                                         \<lparr>phi_k = Fin 0.1, per = Fin 2, phase = Fin 180, scee = Some (Fin 1.2), scnb = Some (Fin 2)\<rparr>,
                                         \<lparr>phi_k = Fin 0.25, per = Fin 1, phase = Fin 0, scee = Some (Fin 1.2), scnb = Some (Fin 2)\<rparr>]],
                dihedral_types := [((''CT'', ''CT'', ''OS'', ''CT''), 0),
                                    ((''CT'', ''OS'', ''CT'', ''CT''), 0)]\<rparr>)) (''CT'', ''OS'', ''CT'', ''CT'') = Some r \<and>
      deref (dihedral_objs (empty_db\<lparr>dihedral_objs := [TypeList [\<lparr>phi_k = Fin 0.383, per = Fin 3, phase = Fin 0, scee = Some (Fin 1.5), scnb = Some (Fin 2.5)\<rparr>,
                                         \<lparr>phi_k = Fin 0.1, per = Fin 2, phase = Fin 180, scee = Some (Fin 1.2), scnb = Some (Fin 2)\<rparr>,
                                         \<lparr>phi_k = Fin 0.25, per = Fin 1, phase = Fin 0, scee = Some (Fin 1.2), scnb = Some (Fin 2)\<rparr>]],
                dihedral_types := [((''CT'', ''CT'', ''OS'', ''CT''), 0),
                                    ((''CT'', ''OS'', ''CT'', ''CT''), 0)]\<rparr>)) r = Some (TypeList [ta, tb, tc]) \<and>
      per ta = Fin 3 \<and> per tb = Fin 2 \<and> per tc = Fin 1) \<and>
   dihedral_terms (empty_db\<lparr>dihedral_objs := [TypeList [\<lparr>phi_k = Fin 0.383, per = Fin 3, phase = Fin 0, scee = Some (Fin 1.5), scnb = Some (Fin 2.5)\<rparr>,
                                         \<lparr>phi_k = Fin 0.1, per = Fin 2, phase = Fin 180, scee = Some (Fin 1.2), scnb = Some (Fin 2)\<rparr>,
                                         \<lparr>phi_k = Fin 0.25, per = Fin 1, phase = Fin 0, scee = Some (Fin 1.2), scnb = Some (Fin 2)\<rparr>]],
                dihedral_types := [((''CT'', ''CT'', ''OS'', ''CT''), 0),
                                    ((''CT'', ''OS'', ''CT'', ''CT''), 0)]\<rparr>) (''CT'', ''CT'', ''OS'', ''CT'') =
     Some [\<lparr>phi_k = Fin 0.383, per = Fin 3, phase = Fin 0, scee = Some (Fin 1.5), scnb = Some (Fin 2.5)\<rparr>,
           \<lparr>phi_k = Fin 0.1, per = Fin 2, phase = Fin 180, scee = Some (Fin 1.2), scnb = Some (Fin 2)\<rparr>,
           \<lparr>phi_k = Fin 0.25, per = Fin 1, phase = Fin 0, scee = Some (Fin 1.2), scnb = Some (Fin 2)\<rparr>] \<and>
   dihedral_terms (empty_db\<lparr>dihedral_objs := [TypeList [\<lparr>phi_k = Fin 0.383, per = Fin 3, phase = Fin 0, scee = Some (Fin 1.5), scnb = Some (Fin 2.5)\<rparr>,
                                         \<lparr>phi_k = Fin 0.1, per = Fin 2, phase = Fin 180, scee = Some (Fin 1.2), scnb = Some (Fin 2)\<rparr>,
                                         \<lparr>phi_k = Fin 0.25, per = Fin 1, phase = Fin 0, scee = Some (Fin 1.2), scnb = Some (Fin 2)\<rparr>]],
                dihedral_types := [((''CT'', ''CT'', ''OS'', ''CT''), 0),
                                    ((''CT'', ''OS'', ''CT'', ''CT''), 0)]\<rparr>) (''CT'', ''OS'', ''CT'', ''CT'') =
     Some [\<lparr>phi_k = Fin 0.383, per = Fin 3, phase = Fin 0, scee = Some (Fin 1.5), scnb = Some (Fin 2.5)\<rparr>,
           \<lparr>phi_k = Fin 0.1, per = Fin 2, phase = Fin 180, scee = Some (Fin 1.2), scnb = Some (Fin 2)\<rparr>,
           \<lparr>phi_k = Fin 0.25, per = Fin 1, phase = Fin 0, scee = Some (Fin 1.2), scnb = Some (Fin 2)\<rparr>] \<and>
   dihedral_terms (empty_db\<lparr>dihedral_objs := [TypeList [\<lparr>phi_k = Fin 0.383, per = Fin 3, phase = Fin 0, scee = Some (Fin 1.5), scnb = Some (Fin 2.5)\<rparr>,
                                         \<lparr>phi_k = Fin 0.1, per = Fin 2, phase = Fin 180, scee = Some (Fin 1.2), scnb = Some (Fin 2)\<rparr>,
                                         \<lparr>phi_k = Fin 0.25, per = Fin 1, phase = Fin 0, scee = Some (Fin 1.2), scnb = Some (Fin 2)\<rparr>],
                                   TypeList [\<lparr>phi_k = Fin 0.5, per = Fin 2, phase = Fin 180, scee = Some (Fin 1.2), scnb = Some (Fin 2)\<rparr>]],
                dihedral_types := [((''CT'', ''CT'', ''OS'', ''CT''), 1),
                                    ((''CT'', ''OS'', ''CT'', ''CT''), 1)]\<rparr>) (''CT'', ''CT'', ''OS'', ''CT'') =
     Some [\<lparr>phi_k = Fin 0.5, per = Fin 2, phase = Fin 180, scee = Some (Fin 1.2), scnb = Some (Fin 2)\<rparr>] \<and>
   dihedral_terms (empty_db\<lparr>dihedral_objs := [TypeList [\<lparr>phi_k = Fin 0.383, per = Fin 3, phase = Fin 0, scee = Some (Fin 1.5), scnb = Some (Fin 2.5)\<rparr>,
                                         \<lparr>phi_k = Fin 0.1, per = Fin 2, phase = Fin 180, scee = Some (Fin 1.2), scnb = Some (Fin 2)\<rparr>,
                                         \<lparr>phi_k = Fin 0.25, per = Fin 1, phase = Fin 0, scee = Some (Fin 1.2), scnb = Some (Fin 2)\<rparr>],
                                   TypeList [\<lparr>phi_k = Fin 0.5, per = Fin 2, phase = Fin 180, scee = Some (Fin 1.2), scnb = Some (Fin 2)\<rparr>]],
                dihedral_types := [((''CT'', ''CT'', ''OS'', ''CT''), 1),
                                    ((''CT'', ''OS'', ''CT'', ''CT''), 1)]\<rparr>) (''CT'', ''OS'', ''CT'', ''CT'') =
     Some [\<lparr>phi_k = Fin 0.5, per = Fin 2, phase = Fin 180, scee = Some (Fin 1.2), scnb = Some (Fin 2)\<rparr>]"
proof -
  let ?K = "(''CT'', ''CT'', ''OS'', ''CT'')"
  let ?db3 = "(empty_db\<lparr>dihedral_objs := [TypeList [\<lparr>phi_k = Fin 0.383, per = Fin 3, phase = Fin 0, scee = Some (Fin 1.5), scnb = Some (Fin 2.5)\<rparr>,
                                         \<lparr>phi_k = Fin 0.1, per = Fin 2, phase = Fin 180, scee = Some (Fin 1.2), scnb = Some (Fin 2)\<rparr>,
                                         \<lparr>phi_k = Fin 0.25, per = Fin 1, phase = Fin 0, scee = Some (Fin 1.2), scnb = Some (Fin 2)\<rparr>]],
                dihedral_types := [((''CT'', ''CT'', ''OS'', ''CT''), 0),
                                    ((''CT'', ''OS'', ''CT'', ''CT''), 0)]\<rparr>)"
  have neg: "pf_less (Fin (- 3)) (Fin 0)" "pf_less (Fin (- 2)) (Fin 0)" "pf_ge (Fin 1) (Fin 0)"
    "fd_get Map.empty ?K" "?K = ?K \<or> ?K = reversed4 ?K"
    "(''CT'', ''OS'', ''CT'', ''CT'') = ?K \<or> (''CT'', ''OS'', ''CT'', ''CT'') = reversed4 ?K"
    by (simp_all add: pf_ge_def fd_get_def reversed4_def)
  have hyp: "process_dihedral_line empty_db Map.empty None
     ''CT-CT-OS-CT   2    0.766         0.0            -3.    SCEE=1.5 SCNB=2.5'' =
   Inr ((empty_db\<lparr>dihedral_objs := [TypeList [\<lparr>phi_k = Fin 0.383, per = Fin 3, phase = Fin 0, scee = Some (Fin 1.5), scnb = Some (Fin 2.5)\<rparr>]],
                dihedral_types := [((''CT'', ''CT'', ''OS'', ''CT''), 0),
                                    ((''CT'', ''OS'', ''CT'', ''CT''), 0)]\<rparr>),
        [(''CT'', ''CT'', ''OS'', ''CT'') \<mapsto> False, (''CT'', ''OS'', ''CT'', ''CT'') \<mapsto> False],
        Some (''CT'', ''CT'', ''OS'', ''CT'')) \<and>
    dihedral_key_per empty_db Map.empty None
     ''CT-CT-OS-CT   2    0.766         0.0            -3.    SCEE=1.5 SCNB=2.5'' =
   Some (?K, Fin (- 3)) \<and> fd_get Map.empty ?K \<and> pf_less (Fin (- 3)) (Fin 0) \<and>
   process_dihedral_line
     (empty_db\<lparr>dihedral_objs := [TypeList [\<lparr>phi_k = Fin 0.383, per = Fin 3, phase = Fin 0, scee = Some (Fin 1.5), scnb = Some (Fin 2.5)\<rparr>]],
                dihedral_types := [((''CT'', ''CT'', ''OS'', ''CT''), 0),
                                    ((''CT'', ''OS'', ''CT'', ''CT''), 0)]\<rparr>)
     [(''CT'', ''CT'', ''OS'', ''CT'') \<mapsto> False, (''CT'', ''OS'', ''CT'', ''CT'') \<mapsto> False]
     (Some ?K)
     ''              1    0.1         180.0            -2.'' =
   Inr ((empty_db\<lparr>dihedral_objs := [TypeList [\<lparr>phi_k = Fin 0.383, per = Fin 3, phase = Fin 0, scee = Some (Fin 1.5), scnb = Some (Fin 2.5)\<rparr>,
                                         \<lparr>phi_k = Fin 0.1, per = Fin 2, phase = Fin 180, scee = Some (Fin 1.2), scnb = Some (Fin 2)\<rparr>]],
                dihedral_types := [((''CT'', ''CT'', ''OS'', ''CT''), 0),
                                    ((''CT'', ''OS'', ''CT'', ''CT''), 0)]\<rparr>),
        [(''CT'', ''CT'', ''OS'', ''CT'') \<mapsto> False, (''CT'', ''OS'', ''CT'', ''CT'') \<mapsto> False],
        Some (''CT'', ''CT'', ''OS'', ''CT'')) \<and>
   dihedral_key_per
     (empty_db\<lparr>dihedral_objs := [TypeList [\<lparr>phi_k = Fin 0.383, per = Fin 3, phase = Fin 0, scee = Some (Fin 1.5), scnb = Some (Fin 2.5)\<rparr>]],
                dihedral_types := [((''CT'', ''CT'', ''OS'', ''CT''), 0),
                                    ((''CT'', ''OS'', ''CT'', ''CT''), 0)]\<rparr>)
     [(''CT'', ''CT'', ''OS'', ''CT'') \<mapsto> False, (''CT'', ''OS'', ''CT'', ''CT'') \<mapsto> False]
     (Some ?K)
     ''              1    0.1         180.0            -2.'' =
   Some (?K, Fin (- 2)) \<and>
   (?K = ?K \<or> ?K = reversed4 ?K) \<and> pf_less (Fin (- 2)) (Fin 0) \<and>
   process_dihedral_line
     (empty_db\<lparr>dihedral_objs := [TypeList [\<lparr>phi_k = Fin 0.383, per = Fin 3, phase = Fin 0, scee = Some (Fin 1.5), scnb = Some (Fin 2.5)\<rparr>,
                                         \<lparr>phi_k = Fin 0.1, per = Fin 2, phase = Fin 180, scee = Some (Fin 1.2), scnb = Some (Fin 2)\<rparr>]],
                dihedral_types := [((''CT'', ''CT'', ''OS'', ''CT''), 0),
                                    ((''CT'', ''OS'', ''CT'', ''CT''), 0)]\<rparr>)
     [(''CT'', ''CT'', ''OS'', ''CT'') \<mapsto> False, (''CT'', ''OS'', ''CT'', ''CT'') \<mapsto> False]
     (Some ?K)
     ''CT-OS-CT-CT   4    1.0           0.0             1.'' =
   Inr (?db3, [(''CT'', ''CT'', ''OS'', ''CT'') \<mapsto> True, (''CT'', ''OS'', ''CT'', ''CT'') \<mapsto> True], None) \<and>
   dihedral_key_per
     (empty_db\<lparr>dihedral_objs := [TypeList [\<lparr>phi_k = Fin 0.383, per = Fin 3, phase = Fin 0, scee = Some (Fin 1.5), scnb = Some (Fin 2.5)\<rparr>,
                                         \<lparr>phi_k = Fin 0.1, per = Fin 2, phase = Fin 180, scee = Some (Fin 1.2), scnb = Some (Fin 2)\<rparr>]],
                dihedral_types := [((''CT'', ''CT'', ''OS'', ''CT''), 0),
                                    ((''CT'', ''OS'', ''CT'', ''CT''), 0)]\<rparr>)
     [(''CT'', ''CT'', ''OS'', ''CT'') \<mapsto> False, (''CT'', ''OS'', ''CT'', ''CT'') \<mapsto> False]
     (Some ?K)
     ''CT-OS-CT-CT   4    1.0           0.0             1.'' =
   Some ((''CT'', ''OS'', ''CT'', ''CT''), Fin 1) \<and>
   ((''CT'', ''OS'', ''CT'', ''CT'') = ?K \<or> (''CT'', ''OS'', ''CT'', ''CT'') = reversed4 ?K) \<and>
   pf_ge (Fin 1) (Fin 0)"
    using dihed_run_1 dihed_run_2 dihed_run_3 neg by (intro conjI)
  note th = dihedral_multi_term [THEN conjunct2, THEN conjunct2, THEN mp, OF hyp]
  then obtain r ta tb tc where
    a: "dict_get (dihedral_types ?db3) ?K = Some r" and
    b: "dict_get (dihedral_types ?db3) (reversed4 ?K) = Some r" and
    c: "deref (dihedral_objs ?db3) r = Some (TypeList [ta, tb, tc])" and
    p: "per ta = pf_abs (Fin (- 3))" "per tb = pf_abs (Fin (- 2))" "per tc = pf_abs (Fin 1)"
    by (elim exE conjE)
  from b have b': "dict_get (dihedral_types ?db3) (''CT'', ''OS'', ''CT'', ''CT'') = Some r"
    by (simp add: reversed4_def)
  from p have p': "per ta = Fin 3" "per tb = Fin 2" "per tc = Fin 1"
    by simp_all
  have ex: "\<exists>r ta tb tc.
      dict_get (dihedral_types ?db3) ?K = Some r \<and>
      dict_get (dihedral_types ?db3) (''CT'', ''OS'', ''CT'', ''CT'') = Some r \<and>
      deref (dihedral_objs ?db3) r = Some (TypeList [ta, tb, tc]) \<and>
      per ta = Fin 3 \<and> per tb = Fin 2 \<and> per tc = Fin 1"
    apply (rule exI [of _ r], rule exI [of _ ta], rule exI [of _ tb], rule exI [of _ tc])
    using a b' c p' by (intro conjI)
  have terms:
    "dihedral_terms ?db3 ?K =
     Some [\<lparr>phi_k = Fin 0.383, per = Fin 3, phase = Fin 0, scee = Some (Fin 1.5), scnb = Some (Fin 2.5)\<rparr>,
           \<lparr>phi_k = Fin 0.1, per = Fin 2, phase = Fin 180, scee = Some (Fin 1.2), scnb = Some (Fin 2)\<rparr>,
           \<lparr>phi_k = Fin 0.25, per = Fin 1, phase = Fin 0, scee = Some (Fin 1.2), scnb = Some (Fin 2)\<rparr>]"
    "dihedral_terms ?db3 (''CT'', ''OS'', ''CT'', ''CT'') =
     Some [\<lparr>phi_k = Fin 0.383, per = Fin 3, phase = Fin 0, scee = Some (Fin 1.5), scnb = Some (Fin 2.5)\<rparr>,
           \<lparr>phi_k = Fin 0.1, per = Fin 2, phase = Fin 180, scee = Some (Fin 1.2), scnb = Some (Fin 2)\<rparr>,
           \<lparr>phi_k = Fin 0.25, per = Fin 1, phase = Fin 0, scee = Some (Fin 1.2), scnb = Some (Fin 2)\<rparr>]"
    "dihedral_terms (empty_db\<lparr>dihedral_objs := [TypeList [\<lparr>phi_k = Fin 0.383, per = Fin 3, phase = Fin 0, scee = Some (Fin 1.5), scnb = Some (Fin 2.5)\<rparr>,
                                         \<lparr>phi_k = Fin 0.1, per = Fin 2, phase = Fin 180, scee = Some (Fin 1.2), scnb = Some (Fin 2)\<rparr>,
                                         \<lparr>phi_k = Fin 0.25, per = Fin 1, phase = Fin 0, scee = Some (Fin 1.2), scnb = Some (Fin 2)\<rparr>],
                                   TypeList [\<lparr>phi_k = Fin 0.5, per = Fin 2, phase = Fin 180, scee = Some (Fin 1.2), scnb = Some (Fin 2)\<rparr>]],
                dihedral_types := [((''CT'', ''CT'', ''OS'', ''CT''), 1),
                                    ((''CT'', ''OS'', ''CT'', ''CT''), 1)]\<rparr>) ?K =
     Some [\<lparr>phi_k = Fin 0.5, per = Fin 2, phase = Fin 180, scee = Some (Fin 1.2), scnb = Some (Fin 2)\<rparr>]"
    "dihedral_terms (empty_db\<lparr>dihedral_objs := [TypeList [\<lparr>phi_k = Fin 0.383, per = Fin 3, phase = Fin 0, scee = Some (Fin 1.5), scnb = Some (Fin 2.5)\<rparr>,
                                         \<lparr>phi_k = Fin 0.1, per = Fin 2, phase = Fin 180, scee = Some (Fin 1.2), scnb = Some (Fin 2)\<rparr>,
                                         \<lparr>phi_k = Fin 0.25, per = Fin 1, phase = Fin 0, scee = Some (Fin 1.2), scnb = Some (Fin 2)\<rparr>],
                                   TypeList [\<lparr>phi_k = Fin 0.5, per = Fin 2, phase = Fin 180, scee = Some (Fin 1.2), scnb = Some (Fin 2)\<rparr>]],
                dihedral_types := [((''CT'', ''CT'', ''OS'', ''CT''), 1),
                                    ((''CT'', ''OS'', ''CT'', ''CT''), 1)]\<rparr>) (''CT'', ''OS'', ''CT'', ''CT'') =
     Some [\<lparr>phi_k = Fin 0.5, per = Fin 2, phase = Fin 180, scee = Some (Fin 1.2), scnb = Some (Fin 2)\<rparr>]"
    by (simp_all add: dihedral_terms_def dict_get_def deref_def empty_db_def)
  from dihed_run_1(1) dihed_run_2(1) dihed_run_3(1) dihed_run_4 ex terms show ?thesis
    by (intro conjI)
qed

subsection \<open>The style of the written text\<close>

lemma write_db_head:
  assumes "write_db repr db title style = Inr out"
  shows "\<exists>rest. out = rstrip_crlf title @ [CHR 0x0A] @ ''MASS'' @ [CHR 0x0A] @
                       concat (map mass_line_out (atom_types db)) @ [CHR 0x0A] @
                       ''BOND'' @ [CHR 0x0A] @ rest"
  using assms unfolding write_db_def
  by (auto simp: bind_Inr_iff split: if_splits)

lemma fmt_f_width: "w \<le> length (fmt_f w p v)"
  by (simp add: fmt_f_def rjust_def)

text \<open>
  C5. A style other than \<open>frcmod\<close> and \<open>parm\<close> is refused with a ValueError. The
  style \<open>parm\<close> gives exactly what the style \<open>frcmod\<close> gives: the text starts with
  the title and the header \<open>MASS\<close>, the mass lines are followed by an empty line and
  the header \<open>BOND\<close>, so the sections are written with their headers in both styles.
  A mass line is the name padded to six characters and the mass in fixed notation
  with three decimals in at least six characters; a bond line has the force constant
  with three decimals in at least eight characters.
\<close>

theorem write_style_ignored:
  "(style \<noteq> ''frcmod'' \<and> style \<noteq> ''parm'' \<longrightarrow>
      write_db repr db title style = Inl ValueError) \<and>
   write_db repr db title ''parm'' = write_db repr db title ''frcmod'' \<and>
   (write_db repr db title ''parm'' = Inr out \<longrightarrow>
      (\<exists>rest. out = rstrip_crlf title @ [CHR 0x0A] @ ''MASS'' @ [CHR 0x0A] @
                     concat (map mass_line_out (atom_types db)) @ [CHR 0x0A] @
                     ''BOND'' @ [CHR 0x0A] @ rest)) \<and>
   mass_line_out (nm, t) = ljust 6 nm @ fmt_f 6 3 (mass t) @ [CHR 0x0A] \<and>
   6 \<le> length (fmt_f 6 3 (mass t)) \<and>
   (deref (bond_objs db) r = Some bt \<longrightarrow>
      bond_line_out db ((a, b), r) =
        Inr (ljust 2 a @ ''-'' @ ljust 2 b @ ''   '' @ fmt_f 8 3 (bond_k bt) @ ''  '' @
             fmt_f 6 3 (req bt) @ [CHR 0x0A]) \<and>
      8 \<le> length (fmt_f 8 3 (bond_k bt)))"
proof (intro conjI impI)
  assume "style \<noteq> ''frcmod'' \<and> style \<noteq> ''parm''"
  then show "write_db repr db title style = Inl ValueError"
    by (simp add: write_db_def)
next
  show "write_db repr db title ''parm'' = write_db repr db title ''frcmod''"
    by (simp add: write_db_def)
next
  assume "write_db repr db title ''parm'' = Inr out"
  then show "\<exists>rest. out = rstrip_crlf title @ [CHR 0x0A] @ ''MASS'' @ [CHR 0x0A] @
                     concat (map mass_line_out (atom_types db)) @ [CHR 0x0A] @
                     ''BOND'' @ [CHR 0x0A] @ rest"
    by (rule write_db_head)
next
  show "mass_line_out (nm, t) = ljust 6 nm @ fmt_f 6 3 (mass t) @ [CHR 0x0A]"
    by (simp add: mass_line_out_def)
next
  assume "deref (bond_objs db) r = Some bt"
  then show "bond_line_out db ((a, b), r) =
        Inr (ljust 2 a @ ''-'' @ ljust 2 b @ ''   '' @ fmt_f 8 3 (bond_k bt) @ ''  '' @
             fmt_f 6 3 (req bt) @ [CHR 0x0A])"
    by (simp add: bond_line_out_def obj_def bind_def)
qed (rule fmt_f_width)+

lemma write_frcmod_CT:
  "write_db repr
     (empty_db\<lparr>atom_types :=
                 [(''CT'', \<lparr>name = ''CT'', number = 1, mass = Fin 12.01, atomic_number = 6,
                            epsilon = Some (Fin 0.1094), rmin = Some (Fin 1.908)\<rparr>)],
               bond_objs := [\<lparr>bond_k = Fin 340, req = Fin 1.09\<rparr>],
               bond_types := [((''CT'', ''HC''), 0), ((''HC'', ''CT''), 0)]\<rparr>)
     (''Example'' @ [CHR 0x0A]) ''frcmod'' =
   Inr (''Example'' @ [CHR 0x0A] @
        ''MASS'' @ [CHR 0x0A] @ ''CT    12.010'' @ [CHR 0x0A] @ [CHR 0x0A] @
        ''BOND'' @ [CHR 0x0A] @ ''CT-HC    340.000   1.090'' @ [CHR 0x0A] @ [CHR 0x0A] @
        ''ANGLE'' @ [CHR 0x0A] @ [CHR 0x0A] @ ''DIHE'' @ [CHR 0x0A] @ [CHR 0x0A] @
        ''IMPROPER'' @ [CHR 0x0A] @ [CHR 0x0A] @
        ''NONB'' @ [CHR 0x0A] @ ''CT    1.90800000   0.10940000'' @ [CHR 0x0A] @ [CHR 0x0A])"
  by (simp add: write_db_def bind_def bond_line_out_def mass_line_out_def nonb_line_out_def
        fmt_f_opt_def obj_def deref_def rstrip_crlf_def empty_db_def fmt_eval)

text \<open>One atom type and one bond, written with the style \<open>parm\<close>: the text has the
  section headers of a frcmod file. Another style is refused.\<close>

theorem write_style_ignored_witness:
  "write_db (\<lambda>x. [])
     (empty_db\<lparr>atom_types :=
                 [(''CT'', \<lparr>name = ''CT'', number = 1, mass = Fin 12.01, atomic_number = 6,
                            epsilon = Some (Fin 0.1094), rmin = Some (Fin 1.908)\<rparr>)],
               bond_objs := [\<lparr>bond_k = Fin 340, req = Fin 1.09\<rparr>],
               bond_types := [((''CT'', ''HC''), 0), ((''HC'', ''CT''), 0)]\<rparr>)
     (''Example'' @ [CHR 0x0A]) ''parm'' =
   Inr (''Example'' @ [CHR 0x0A] @
        ''MASS'' @ [CHR 0x0A] @ ''CT    12.010'' @ [CHR 0x0A] @ [CHR 0x0A] @
        ''BOND'' @ [CHR 0x0A] @ ''CT-HC    340.000   1.090'' @ [CHR 0x0A] @ [CHR 0x0A] @
        ''ANGLE'' @ [CHR 0x0A] @ [CHR 0x0A] @ ''DIHE'' @ [CHR 0x0A] @ [CHR 0x0A] @
        ''IMPROPER'' @ [CHR 0x0A] @ [CHR 0x0A] @
        ''NONB'' @ [CHR 0x0A] @ ''CT    1.90800000   0.10940000'' @ [CHR 0x0A] @ [CHR 0x0A]) \<and>
   write_db (\<lambda>x. []) empty_db ''Example'' ''amber'' = Inl ValueError \<and>
   mass_line_out (''CT'', \<lparr>name = ''CT'', number = 1, mass = Fin 12.01, atomic_number = 6,
                            epsilon = Some (Fin 0.1094), rmin = Some (Fin 1.908)\<rparr>) =
     ''CT    12.010'' @ [CHR 0x0A] \<and>
   bond_line_out (empty_db\<lparr>bond_objs := [\<lparr>bond_k = Fin 340, req = Fin 1.09\<rparr>]\<rparr>)
     ((''CT'', ''HC''), 0) = Inr (''CT-HC    340.000   1.090'' @ [CHR 0x0A])"
proof -
  note th = write_style_ignored
  have a: "write_db (\<lambda>x. [])
     (empty_db\<lparr>atom_types :=
                 [(''CT'', \<lparr>name = ''CT'', number = 1, mass = Fin 12.01, atomic_number = 6,
                            epsilon = Some (Fin 0.1094), rmin = Some (Fin 1.908)\<rparr>)],
               bond_objs := [\<lparr>bond_k = Fin 340, req = Fin 1.09\<rparr>],
               bond_types := [((''CT'', ''HC''), 0), ((''HC'', ''CT''), 0)]\<rparr>)
     (''Example'' @ [CHR 0x0A]) ''parm'' =
   Inr (''Example'' @ [CHR 0x0A] @
        ''MASS'' @ [CHR 0x0A] @ ''CT    12.010'' @ [CHR 0x0A] @ [CHR 0x0A] @
        ''BOND'' @ [CHR 0x0A] @ ''CT-HC    340.000   1.090'' @ [CHR 0x0A] @ [CHR 0x0A] @
        ''ANGLE'' @ [CHR 0x0A] @ [CHR 0x0A] @ ''DIHE'' @ [CHR 0x0A] @ [CHR 0x0A] @
        ''IMPROPER'' @ [CHR 0x0A] @ [CHR 0x0A] @
        ''NONB'' @ [CHR 0x0A] @ ''CT    1.90800000   0.10940000'' @ [CHR 0x0A] @ [CHR 0x0A])"
    unfolding th [THEN conjunct2, THEN conjunct1] by (rule write_frcmod_CT)
  have b: "write_db (\<lambda>x. []) empty_db ''Example'' ''amber'' = Inl ValueError"
    by (rule th [THEN conjunct1, THEN mp]) simp
  have c: "mass_line_out (''CT'', \<lparr>name = ''CT'', number = 1, mass = Fin 12.01, atomic_number = 6,
                            epsilon = Some (Fin 0.1094), rmin = Some (Fin 1.908)\<rparr>) =
     ''CT    12.010'' @ [CHR 0x0A]"
    unfolding th [THEN conjunct2, THEN conjunct2, THEN conjunct2, THEN conjunct1]
    by (simp add: fmt_eval)
  have "deref (bond_objs (empty_db\<lparr>bond_objs := [\<lparr>bond_k = Fin 340, req = Fin 1.09\<rparr>]\<rparr>)) 0 =
          Some \<lparr>bond_k = Fin 340, req = Fin 1.09\<rparr>"
    by (simp add: deref_def)
  note th [THEN conjunct2, THEN conjunct2, THEN conjunct2, THEN conjunct2, THEN conjunct2,
           THEN mp, OF this, THEN conjunct1]
  then have d: "bond_line_out (empty_db\<lparr>bond_objs := [\<lparr>bond_k = Fin 340, req = Fin 1.09\<rparr>]\<rparr>)
     ((''CT'', ''HC''), 0) = Inr (''CT-HC    340.000   1.090'' @ [CHR 0x0A])"
    by (simp add: fmt_eval)
  from a b c d show ?thesis by (intro conjI)
qed
end
